theory Spec2Isabelle
  imports Complex_Main "HOL-Library.Sublist" "HOL-Library.Char_ord" "HOL-Library.List_Lexorder"
begin

section \<open>Values, errors and tables\<close>

text \<open>
  The dashboard script \<^verbatim>\<open>app.py\<close> works on a pandas table read from a CSV file.
  A cell of that table is a missing value (pandas' NaN), a float, a string or a boolean.
  Floats are modelled as real numbers, a NaN result of an aggregate as \<open>None\<close>.
  A Python exception is a value \<open>Inl e\<close>; the script has no \<^verbatim>\<open>try\<close>, so an
  exception raised anywhere ends the whole run.
\<close>

datatype cell = Null | Num real | Str string | Bool bool

datatype error = KeyError | TypeError

type_synonym row = "string \<Rightarrow> cell"

text \<open>
  A table has its column names, in order, and its rows; a row gives the cell of each
  column (what it gives at a name that is not a column is never read).
\<close>

record dataframe =
  columns :: "string list"
  rows :: "row list"

definition bindE :: "error + 'a \<Rightarrow> ('a \<Rightarrow> error + 'b) \<Rightarrow> error + 'b" where
  "bindE m f = (case m of Inl e \<Rightarrow> Inl e | Inr x \<Rightarrow> f x)"

fun mapE :: "('a \<Rightarrow> error + 'b) \<Rightarrow> 'a list \<Rightarrow> error + 'b list" where
  "mapE f [] = Inr []"
| "mapE f (x # xs) = bindE (f x) (\<lambda>y. bindE (mapE f xs) (\<lambda>ys. Inr (y # ys)))"

subsection \<open>Python's arithmetic and comparisons on cells\<close>

text \<open>
  The numeric reading of a cell: a boolean counts as 0 or 1, a missing value is NaN,
  and a string in arithmetic or in an ordering comparison raises \<^verbatim>\<open>TypeError\<close>.
\<close>

fun numeric :: "cell \<Rightarrow> error + real option" where
  "numeric Null = Inr None"
| "numeric (Num x) = Inr (Some x)"
| "numeric (Bool b) = Inr (Some (if b then 1 else 0))"
| "numeric (Str s) = Inl TypeError"

text \<open>Every ordering comparison with NaN is false.\<close>

definition py_lt :: "cell \<Rightarrow> real \<Rightarrow> error + bool" where
  "py_lt c k = bindE (numeric c) (\<lambda>v. Inr (case v of None \<Rightarrow> False | Some x \<Rightarrow> x < k))"

definition py_le :: "cell \<Rightarrow> real \<Rightarrow> error + bool" where
  "py_le c k = bindE (numeric c) (\<lambda>v. Inr (case v of None \<Rightarrow> False | Some x \<Rightarrow> x \<le> k))"

definition py_gt :: "cell \<Rightarrow> real option \<Rightarrow> error + bool" where
  "py_gt c t = bindE (numeric c)
     (\<lambda>v. Inr (case v of None \<Rightarrow> False
               | Some x \<Rightarrow> (case t of None \<Rightarrow> False | Some y \<Rightarrow> y < x)))"

text \<open>\<^verbatim>\<open>==\<close> never raises; NaN equals nothing, a string equals only the same string.\<close>

definition py_eq :: "cell \<Rightarrow> cell \<Rightarrow> bool" where
  "py_eq a b =
     (case a of
        Str x \<Rightarrow> (case b of Str y \<Rightarrow> x = y | _ \<Rightarrow> False)
      | _ \<Rightarrow> (case b of
          Str y \<Rightarrow> False
        | _ \<Rightarrow> (case numeric a of
            Inr (Some x) \<Rightarrow> (case numeric b of Inr (Some y) \<Rightarrow> x = y | _ \<Rightarrow> False)
          | _ \<Rightarrow> False)))"

definition fadd :: "real option \<Rightarrow> real option \<Rightarrow> real option" where
  "fadd a b = (case a of None \<Rightarrow> None
     | Some x \<Rightarrow> (case b of None \<Rightarrow> None | Some y \<Rightarrow> Some (x + y)))"

definition fmul :: "real option \<Rightarrow> real \<Rightarrow> real option" where
  "fmul a k = (case a of None \<Rightarrow> None | Some x \<Rightarrow> Some (x * k))"

definition cell_of :: "real option \<Rightarrow> cell" where
  "cell_of v = (case v of None \<Rightarrow> Null | Some x \<Rightarrow> Num x)"

subsection \<open>Series operations\<close>

text \<open>
  \<^verbatim>\<open>mean\<close>, \<^verbatim>\<open>median\<close> and \<^verbatim>\<open>std\<close> skip missing values (pandas' default
  \<^verbatim>\<open>skipna=True\<close>) and raise on a string. \<^verbatim>\<open>std\<close> is the sample standard deviation
  (\<^verbatim>\<open>ddof=1\<close>), NaN on fewer than two values; the mean and the median of no value
  are NaN.
\<close>

definition values_of :: "cell list \<Rightarrow> error + real list" where
  "values_of s = bindE (mapE numeric s) (\<lambda>vs. Inr (List.map_filter (\<lambda>v. v) vs))"

fun is_str :: "cell \<Rightarrow> bool" where
  "is_str (Str s) = True"
| "is_str _ = False"

fun str_key :: "cell \<Rightarrow> string" where
  "str_key (Str s) = s"
| "str_key _ = []"

fun num_key :: "cell \<Rightarrow> real" where
  "num_key (Num x) = x"
| "num_key (Bool b) = (if b then 1 else 0)"
| "num_key _ = 0"

text \<open>On a series without strings \<open>values_of\<close> returns the numeric readings of the
  cells that are not missing, in order (lemma \<open>values_of_cases\<close> below).\<close>

definition present_values :: "cell list \<Rightarrow> real list" where
  "present_values s = map num_key (filter (\<lambda>c. c \<noteq> Null) s)"

definition mean :: "real list \<Rightarrow> real option" where
  "mean xs = (if xs = [] then None else Some (sum_list xs / real (length xs)))"

definition median :: "real list \<Rightarrow> real option" where
  "median xs = (let s = sort xs; n = length s in
     if n = 0 then None
     else if odd n then Some (s ! (n div 2))
     else Some ((s ! (n div 2 - 1) + s ! (n div 2)) / 2))"

definition std :: "real list \<Rightarrow> real option" where
  "std xs = (let n = length xs; m = sum_list xs / real n in
     if n < 2 then None
     else Some (sqrt (sum_list (map (\<lambda>x. (x - m)\<^sup>2) xs) / real (n - 1))))"

definition series_mean :: "cell list \<Rightarrow> error + real option" where
  "series_mean s = bindE (values_of s) (\<lambda>xs. Inr (mean xs))"

definition series_median :: "cell list \<Rightarrow> error + real option" where
  "series_median s = bindE (values_of s) (\<lambda>xs. Inr (median xs))"

definition series_std :: "cell list \<Rightarrow> error + real option" where
  "series_std s = bindE (values_of s) (\<lambda>xs. Inr (std xs))"

definition fillna :: "cell \<Rightarrow> cell list \<Rightarrow> cell list" where
  "fillna v s = map (\<lambda>c. if c = Null then v else c) s"

text \<open>\<^verbatim>\<open>df[c]\<close> raises \<^verbatim>\<open>KeyError\<close> on a missing column; \<^verbatim>\<open>df[c] = s\<close> replaces the
  column, or appends it when it is new.\<close>

definition column :: "dataframe \<Rightarrow> string \<Rightarrow> cell list" where
  "column d c = map (\<lambda>r. r c) (rows d)"

definition getcol :: "dataframe \<Rightarrow> string \<Rightarrow> error + cell list" where
  "getcol d c = (if c \<in> set (columns d) then Inr (column d c) else Inl KeyError)"

definition setcol :: "dataframe \<Rightarrow> string \<Rightarrow> cell list \<Rightarrow> dataframe" where
  "setcol d c s =
     \<lparr>columns = (if c \<in> set (columns d) then columns d else columns d @ [c]),
      rows = map (\<lambda>(r, v). r(c := v)) (zip (rows d) s)\<rparr>"

text \<open>\<^verbatim>\<open>df[mask]\<close>: the rows whose mask entry is true.\<close>

definition mask_select :: "dataframe \<Rightarrow> bool list \<Rightarrow> dataframe" where
  "mask_select d m = d\<lparr>rows := map fst (filter snd (zip (rows d) m))\<rparr>"

section \<open>Data cleaning and features\<close>

definition cat_cols :: "string list" where
  "cat_cols = [''Weather'', ''Traffic'', ''Vehicle'', ''Area'', ''Category'']"

definition fill_cat :: "string \<Rightarrow> dataframe \<Rightarrow> dataframe" where
  "fill_cat col d =
     (if col \<in> set (columns d)
      then setcol d col (fillna (Str ''Unknown'') (column d col))
      else d)"

definition fill_cat_cols :: "dataframe \<Rightarrow> dataframe" where
  "fill_cat_cols d = fold fill_cat cat_cols d"

definition fill_agent_rating :: "dataframe \<Rightarrow> error + dataframe" where
  "fill_agent_rating d =
     (if ''Agent_Rating'' \<in> set (columns d)
      then bindE (getcol d ''Agent_Rating'') (\<lambda>s.
           bindE (series_mean s) (\<lambda>m.
           Inr (setcol d ''Agent_Rating'' (fillna (cell_of m) s))))
      else Inr d)"

definition fill_agent_age :: "dataframe \<Rightarrow> error + dataframe" where
  "fill_agent_age d =
     (if ''Agent_Age'' \<in> set (columns d)
      then bindE (getcol d ''Agent_Age'') (\<lambda>s.
           bindE (series_median s) (\<lambda>m.
           Inr (setcol d ''Agent_Age'' (fillna (cell_of m) s))))
      else Inr d)"

definition age_group :: "cell \<Rightarrow> error + cell" where
  "age_group age =
     bindE (py_lt age 25) (\<lambda>lt.
       if lt then Inr (Str ''<25'')
       else bindE (py_le age 40) (\<lambda>le.
         if le then Inr (Str ''25-40'') else Inr (Str ''40+'')))"

text \<open>The module-level state after the cleaning section: the derived table and the
  three scalars.\<close>

record derived =
  df :: dataframe
  avg_delivery_time :: "real option"
  std_delivery_time :: "real option"
  late_percentage :: "real option"

definition derive :: "dataframe \<Rightarrow> error + derived" where
  "derive raw =
     bindE (fill_agent_rating (fill_cat_cols raw)) (\<lambda>d2.
     bindE (fill_agent_age d2) (\<lambda>d3.
     bindE (getcol d3 ''Delivery_Time'') (\<lambda>dt.
     bindE (series_mean dt) (\<lambda>avg.
     bindE (getcol d3 ''Delivery_Time'') (\<lambda>dt'.
     bindE (series_std dt') (\<lambda>sd.
     bindE (getcol d3 ''Delivery_Time'') (\<lambda>dt''.
     bindE (mapE (\<lambda>c. py_gt c (fadd avg sd)) dt'') (\<lambda>late.
     let d4 = setcol d3 ''Is_Late'' (map Bool late) in
     bindE (getcol d4 ''Is_Late'') (\<lambda>il.
     bindE (series_mean il) (\<lambda>lm.
     bindE (getcol d4 ''Agent_Age'') (\<lambda>ages.
     bindE (mapE age_group ages) (\<lambda>groups.
     Inr \<lparr>df = setcol d4 ''Agent_Age_Group'' groups,
          avg_delivery_time = avg,
          std_delivery_time = sd,
          late_percentage = fmul lm 100\<rparr>))))))))))))"

section \<open>Sidebar filters\<close>

text \<open>
  \<^verbatim>\<open>options\<close> lists \<^verbatim>\<open>"All"\<close> and then the distinct non-missing values of a column,
  sorted. Python's \<^verbatim>\<open>sorted\<close> raises \<^verbatim>\<open>TypeError\<close> when it has to order a string
  against a number. The select boxes themselves belong to the user interface: the value
  each one returns is the parameter \<open>sel\<close> of the functions below.
\<close>

definition options :: "cell list \<Rightarrow> error + cell list" where
  "options series =
     (let u = remdups (filter (\<lambda>c. c \<noteq> Null) series) in
      if list_all is_str u then Inr (Str ''All'' # sort_key str_key u)
      else if list_ex is_str u then Inl TypeError
      else Inr (Str ''All'' # sort_key num_key u))"

record selection =
  weather_sel :: cell
  traffic_sel :: cell
  vehicle_sel :: cell
  area_sel :: cell
  cat_sel :: cell

definition sidebar :: "dataframe \<Rightarrow> error + cell list list" where
  "sidebar d =
     mapE (\<lambda>c. bindE (getcol d c) options)
       [''Weather'', ''Traffic'', ''Vehicle'', ''Area'', ''Category'']"

text \<open>One line of the filter: \<^verbatim>\<open>if sel != "All": fdf = fdf[fdf[col] == sel]\<close>.\<close>

definition apply_filter :: "string \<Rightarrow> cell \<Rightarrow> dataframe \<Rightarrow> error + dataframe" where
  "apply_filter col sel d =
     (if \<not> py_eq sel (Str ''All'')
      then bindE (getcol d col) (\<lambda>s. Inr (mask_select d (map (\<lambda>v. py_eq v sel) s)))
      else Inr d)"

definition filtered_df :: "dataframe \<Rightarrow> selection \<Rightarrow> error + dataframe" where
  "filtered_df d sel =
     bindE (apply_filter ''Weather'' (weather_sel sel) d) (\<lambda>d1.
     bindE (apply_filter ''Traffic'' (traffic_sel sel) d1) (\<lambda>d2.
     bindE (apply_filter ''Vehicle'' (vehicle_sel sel) d2) (\<lambda>d3.
     bindE (apply_filter ''Area'' (area_sel sel) d3) (\<lambda>d4.
     apply_filter ''Category'' (cat_sel sel) d4))))"

section \<open>Aggregates for the charts\<close>

text \<open>
  \<^verbatim>\<open>d.groupby(keys)[val].mean()\<close>: one group for every combination of key values that
  occurs in a row (rows with a missing key are dropped), with the mean of \<open>val\<close> over
  the rows of the group. The result is a map from the key values to the mean; the order
  in which pandas lists the groups is not part of it.
\<close>

definition group_key :: "string list \<Rightarrow> row \<Rightarrow> cell list" where
  "group_key keys r = map r keys"

definition groupby_mean ::
  "dataframe \<Rightarrow> string list \<Rightarrow> string \<Rightarrow> error + (cell list \<rightharpoonup> real option)" where
  "groupby_mean d keys val =
     (if \<not> list_all (\<lambda>k. k \<in> set (columns d)) keys then Inl KeyError
      else if val \<notin> set (columns d) then Inl KeyError
      else
        let rs = filter (\<lambda>r. \<not> list_ex (\<lambda>c. c = Null) (group_key keys r)) (rows d);
            ks = remdups (map (group_key keys) rs)
        in bindE (mapE (\<lambda>k. bindE (series_mean (map (\<lambda>r. r val) (filter (\<lambda>r. group_key keys r = k) rs)))
                                   (\<lambda>m. Inr (k, m))) ks)
             (\<lambda>kvs. Inr (map_of kvs)))"

section \<open>The whole script\<close>

record dashboard =
  state :: derived
  filtered :: dataframe
  records_filtered :: nat
  fig1_data :: "cell list \<rightharpoonup> real option"
  fig2_data :: "cell list \<rightharpoonup> real option"
  fig4_data :: "cell list \<rightharpoonup> real option"
  late_df :: "cell list \<rightharpoonup> real option \<times> real option"

definition app :: "dataframe \<Rightarrow> selection \<Rightarrow> error + dashboard" where
  "app raw sel =
     bindE (derive raw) (\<lambda>st.
     bindE (sidebar (df st)) (\<lambda>opts.
     bindE (filtered_df (df st) sel) (\<lambda>f.
     bindE (groupby_mean f [''Weather'', ''Traffic''] ''Delivery_Time'') (\<lambda>g1.
     bindE (groupby_mean f [''Vehicle''] ''Delivery_Time'') (\<lambda>g2.
     bindE (groupby_mean f [''Area''] ''Delivery_Time'') (\<lambda>g4.
     bindE (groupby_mean f [''Weather''] ''Is_Late'') (\<lambda>g6.
     Inr \<lparr>state = st,
          filtered = f,
          records_filtered = length (rows f),
          fig1_data = g1,
          fig2_data = g2,
          fig4_data = g4,
          late_df = (\<lambda>k. map_option (\<lambda>m. (m, fmul m 100)) (g6 k))\<rparr>)))))))"

text \<open>The scatter plot and the box plot take the filtered table as it is; drawing the
  charts is left to the plotting library and is not part of \<open>app\<close>.\<close>

section \<open>The filter as the specification words it\<close>

text \<open>
  The specification describes the filter by a predicate on rows: for each of the five
  columns, the selection "All" asks for nothing and any other selection asks that the
  column equal the selected string; the five conditions are joined by "and".
\<close>

definition spec_keeps :: "string \<Rightarrow> string \<Rightarrow> string \<Rightarrow> string \<Rightarrow> string \<Rightarrow> row \<Rightarrow> bool" where
  "spec_keeps w t v a c r =
     ((w = ''All'' \<or> r ''Weather'' = Str w) \<and>
      (t = ''All'' \<or> r ''Traffic'' = Str t) \<and>
      (v = ''All'' \<or> r ''Vehicle'' = Str v) \<and>
      (a = ''All'' \<or> r ''Area'' = Str a) \<and>
      (c = ''All'' \<or> r ''Category'' = Str c))"

section \<open>Example tables\<close>

text \<open>Four deliveries with one missing vehicle, one missing rating and one missing age;
  the delivery times 1, 1, 1, 5 have mean 2 and sample standard deviation 2.\<close>

definition sample_row :: row where
  "sample_row = (\<lambda>c. Null)
     (''Weather'' := Str ''Sunny'', ''Traffic'' := Str ''Low'', ''Vehicle'' := Str ''Bike'',
      ''Area'' := Str ''Urban'', ''Category'' := Str ''Food'',
      ''Agent_Rating'' := Num 4, ''Agent_Age'' := Num 24, ''Delivery_Time'' := Num 1)"

definition sample_columns :: "string list" where
  "sample_columns = [''Weather'', ''Traffic'', ''Vehicle'', ''Area'', ''Category'',
     ''Agent_Rating'', ''Agent_Age'', ''Delivery_Time'']"

definition sample_raw :: dataframe where
  "sample_raw = \<lparr>columns = sample_columns,
     rows = [sample_row,
             sample_row(''Vehicle'' := Null, ''Agent_Rating'' := Null, ''Agent_Age'' := Null),
             sample_row(''Weather'' := Str ''Rain'', ''Agent_Rating'' := Num 5, ''Agent_Age'' := Num 41),
             sample_row(''Weather'' := Str ''Rain'', ''Area'' := Str ''Rural'',
                        ''Agent_Rating'' := Num 3, ''Agent_Age'' := Num 30,
                        ''Delivery_Time'' := Num 5)]\<rparr>"

text \<open>The same table without the column Area.\<close>

definition sample_no_area :: dataframe where
  "sample_no_area = sample_raw\<lparr>columns := filter (\<lambda>c. c \<noteq> ''Area'') sample_columns\<rparr>"

text \<open>The same table with a fifth delivery whose time is missing.\<close>

definition null_time_raw :: dataframe where
  "null_time_raw = sample_raw\<lparr>rows := rows sample_raw @ [sample_row(''Delivery_Time'' := Null)]\<rparr>"

text \<open>The same table with a fifth delivery whose age is not a number.\<close>

definition bad_age_raw :: dataframe where
  "bad_age_raw = sample_raw\<lparr>rows := rows sample_raw @ [sample_row(''Agent_Age'' := Str ''abc'')]\<rparr>"

text \<open>Seven deliveries whose times present, 6, 0, 10, 2, 9, 3, have mean 5 and sample
  standard deviation 4 (their population standard deviation is below 4): the time 6
  lies between the mean and the threshold 9, the time 9 is the threshold itself.\<close>

definition spread_raw :: dataframe where
  "spread_raw = \<lparr>columns = sample_columns,
     rows = [sample_row(''Delivery_Time'' := Num 6),
             sample_row(''Delivery_Time'' := Num 0),
             sample_row(''Delivery_Time'' := Null),
             sample_row(''Delivery_Time'' := Num 10, ''Weather'' := Str ''Rain''),
             sample_row(''Delivery_Time'' := Num 2),
             sample_row(''Delivery_Time'' := Num 9, ''Weather'' := Str ''Rain''),
             sample_row(''Delivery_Time'' := Num 3)]\<rparr>"

text \<open>A single delivery: its time has no sample standard deviation.\<close>

definition single_raw :: dataframe where
  "single_raw = \<lparr>columns = sample_columns, rows = [sample_row]\<rparr>"

text \<open>Five deliveries with the ratings 5, 1, 3, 4 (mean 13/4) and the ages 41, 24, 30,
  50 (an even number of them, median 71/2) present, and one rating and one age
  missing; then the same with a sixth delivery of age 25, which makes the number of
  ages odd and their median 30.\<close>

definition even_ages_raw :: dataframe where
  "even_ages_raw = \<lparr>columns = sample_columns,
     rows = [sample_row(''Agent_Rating'' := Num 5, ''Agent_Age'' := Num 41),
             sample_row(''Agent_Rating'' := Null, ''Agent_Age'' := Num 24),
             sample_row(''Agent_Rating'' := Num 1, ''Agent_Age'' := Null),
             sample_row(''Agent_Rating'' := Num 3, ''Agent_Age'' := Num 30),
             sample_row(''Agent_Rating'' := Num 4, ''Agent_Age'' := Num 50)]\<rparr>"

definition odd_ages_raw :: dataframe where
  "odd_ages_raw = even_ages_raw\<lparr>rows := rows even_ages_raw @
     [sample_row(''Agent_Rating'' := Num 2, ''Agent_Age'' := Num 25)]\<rparr>"


definition all_sel :: selection where
  "all_sel = \<lparr>weather_sel = Str ''All'', traffic_sel = Str ''All'', vehicle_sel = Str ''All'',
              area_sel = Str ''All'', cat_sel = Str ''All''\<rparr>"

definition rain_sel :: selection where
  "rain_sel = all_sel\<lparr>weather_sel := Str ''Rain''\<rparr>"

definition snow_sel :: selection where
  "snow_sel = all_sel\<lparr>weather_sel := Str ''Snow''\<rparr>"

section \<open>Basic facts\<close>

lemma bindE_Inl [simp]: "bindE (Inl e) f = Inl e"
  by (simp add: bindE_def)

lemma bindE_Inr [simp]: "bindE (Inr x) f = f x"
  by (simp add: bindE_def)

lemma bindE_eq_Inr: "bindE m f = Inr y \<longleftrightarrow> (\<exists>x. m = Inr x \<and> f x = Inr y)"
  by (cases m) simp_all

lemma mapE_Inr_all2:
  "mapE f xs = Inr ys \<Longrightarrow> list_all2 (\<lambda>x y. f x = Inr y) xs ys"
proof (induction xs arbitrary: ys)
  case Nil
  then show ?case by simp
next
  case (Cons x xs)
  from Cons.prems obtain y ys' where "f x = Inr y" "mapE f xs = Inr ys'" "ys = y # ys'"
    by (auto simp: bindE_eq_Inr)
  with Cons.IH show ?case by simp
qed

lemma mapE_pure:
  "(\<And>x. x \<in> set xs \<Longrightarrow> f x = Inr (g x)) \<Longrightarrow> mapE f xs = Inr (map g xs)"
  by (induction xs) simp_all

lemma mapE_Inl:
  "x \<in> set xs \<Longrightarrow> f x = Inl e \<Longrightarrow> (\<And>y e'. f y = Inl e' \<Longrightarrow> e' = e) \<Longrightarrow> mapE f xs = Inl e"
proof (induction xs)
  case Nil
  from Nil(1) show ?case by simp
next
  case (Cons a xs)
  show ?case
  proof (cases "f a")
    case (Inl e')
    from Cons.prems(3)[OF Inl] have "e' = e" .
    with Inl show ?thesis by simp
  next
    case (Inr b)
    with Cons.prems(1,2) have "x \<in> set xs" by auto
    from Cons.IH[OF this Cons.prems(2) Cons.prems(3)] have "mapE f xs = Inl e" .
    with Inr show ?thesis by simp
  qed
qed

lemma numeric_Inr: "\<not> is_str c \<Longrightarrow> numeric c = Inr (if c = Null then None else Some (num_key c))"
  by (cases c) simp_all

lemma numeric_Inl: "is_str c \<Longrightarrow> numeric c = Inl TypeError"
  by (cases c) simp_all

lemma numeric_err: "numeric c = Inl e \<Longrightarrow> e = TypeError \<and> is_str c"
  by (cases c) simp_all

lemma map_filter_nonnull:
  "List.map_filter (\<lambda>v. v) (map (\<lambda>c. if c = Null then None else Some (num_key c)) s)
     = present_values s"
  by (induction s) (simp_all add: List.map_filter_simps present_values_def)

lemma values_of_nostr:
  "\<not> list_ex is_str s \<Longrightarrow> values_of s = Inr (present_values s)"
proof -
  assume a: "\<not> list_ex is_str s"
  have "mapE numeric s = Inr (map (\<lambda>c. if c = Null then None else Some (num_key c)) s)"
    by (rule mapE_pure) (use a in \<open>auto simp: list_ex_iff numeric_Inr\<close>)
  then show ?thesis by (simp add: values_of_def map_filter_nonnull)
qed

lemma values_of_str: "list_ex is_str s \<Longrightarrow> values_of s = Inl TypeError"
proof -
  assume "list_ex is_str s"
  then obtain c where c: "c \<in> set s" "is_str c" by (auto simp: list_ex_iff)
  have "mapE numeric s = Inl TypeError"
  proof (rule mapE_Inl[OF c(1)])
    show "numeric c = Inl TypeError" using c(2) by (rule numeric_Inl)
    show "\<And>y e'. numeric y = Inl e' \<Longrightarrow> e' = TypeError" by (simp add: numeric_err)
  qed
  then show ?thesis by (simp add: values_of_def)
qed

lemma values_of_cases:
  "values_of s = (if list_ex is_str s then Inl TypeError
                  else Inr (present_values s))"
  by (simp add: values_of_nostr values_of_str)

lemma series_mean_cases:
  "series_mean s = (if list_ex is_str s then Inl TypeError
                    else Inr (mean (present_values s)))"
  by (simp add: series_mean_def values_of_cases)

lemma series_median_cases:
  "series_median s = (if list_ex is_str s then Inl TypeError
                    else Inr (median (present_values s)))"
  by (simp add: series_median_def values_of_cases)

lemma series_std_cases:
  "series_std s = (if list_ex is_str s then Inl TypeError
                    else Inr (std (present_values s)))"
  by (simp add: series_std_def values_of_cases)

subsection \<open>Columns of a table\<close>

lemma length_column [simp]: "length (column d c) = length (rows d)"
  by (simp add: column_def)

lemma rows_setcol:
  "length s = length (rows d) \<Longrightarrow> length (rows (setcol d c s)) = length (rows d)"
  by (simp add: setcol_def)

lemma column_setcol_same:
  assumes "length s = length (rows d)"
  shows "column (setcol d c s) c = s"
proof -
  have "column (setcol d c s) c = map snd (zip (rows d) s)"
    by (simp add: setcol_def column_def case_prod_unfold)
  with assms show ?thesis by simp
qed

lemma column_setcol_other:
  assumes "length s = length (rows d)" and "c' \<noteq> c"
  shows "column (setcol d c s) c' = column d c'"
proof -
  have "column (setcol d c s) c' = map (\<lambda>r. r c') (map fst (zip (rows d) s))"
    using assms(2) by (simp add: setcol_def column_def case_prod_unfold)
  with assms(1) show ?thesis by (simp add: column_def)
qed

lemma columns_setcol: "set (columns (setcol d c s)) = insert c (set (columns d))"
  by (auto simp: setcol_def)

lemma columns_setcol_mem: "c \<in> set (columns d) \<Longrightarrow> columns (setcol d c s) = columns d"
  by (simp add: setcol_def)

lemma getcol_Inr: "getcol d c = Inr s \<longleftrightarrow> c \<in> set (columns d) \<and> s = column d c"
  by (auto simp: getcol_def)

lemma length_fillna [simp]: "length (fillna v s) = length s"
  by (simp add: fillna_def)

lemma fillna_idem: "fillna (Str u) (fillna (Str u) s) = fillna (Str u) s"
  by (simp add: fillna_def)

lemma fill_cat_columns [simp]: "columns (fill_cat c d) = columns d"
  by (simp add: fill_cat_def columns_setcol_mem)

lemma fill_cat_length [simp]: "length (rows (fill_cat c d)) = length (rows d)"
  by (simp add: fill_cat_def rows_setcol)

lemma fill_cat_column:
  "column (fill_cat c d) c' =
     (if c' = c \<and> c \<in> set (columns d) then fillna (Str ''Unknown'') (column d c) else column d c')"
  by (simp add: fill_cat_def column_setcol_same column_setcol_other)

lemma fold_fill_cat_columns [simp]: "columns (fold fill_cat cs d) = columns d"
  by (induction cs arbitrary: d) simp_all

lemma fold_fill_cat_length [simp]: "length (rows (fold fill_cat cs d)) = length (rows d)"
  by (induction cs arbitrary: d) simp_all

lemma fold_fill_cat_column:
  "column (fold fill_cat cs d) c' =
     (if c' \<in> set cs \<and> c' \<in> set (columns d) then fillna (Str ''Unknown'') (column d c') else column d c')"
  by (induction cs arbitrary: d) (auto simp: fill_cat_column fillna_idem)

subsection \<open>The cleaning steps\<close>

lemma fill_agent_rating_Inr:
  assumes "fill_agent_rating d = Inr d2"
  shows "columns d2 = columns d"
    and "length (rows d2) = length (rows d)"
    and "''Agent_Rating'' \<in> set (columns d) \<Longrightarrow> \<not> list_ex is_str (column d ''Agent_Rating'')"
    and "column d2 c' =
      (if c' = ''Agent_Rating'' \<and> ''Agent_Rating'' \<in> set (columns d)
       then fillna (cell_of (mean (present_values (column d ''Agent_Rating'')))) (column d ''Agent_Rating'')
       else column d c')"
  using assms
  by (auto simp: fill_agent_rating_def getcol_def series_mean_cases columns_setcol_mem rows_setcol
      column_setcol_same column_setcol_other split: if_splits)

lemma fill_agent_age_Inr:
  assumes "fill_agent_age d = Inr d2"
  shows "columns d2 = columns d"
    and "length (rows d2) = length (rows d)"
    and "''Agent_Age'' \<in> set (columns d) \<Longrightarrow> \<not> list_ex is_str (column d ''Agent_Age'')"
    and "column d2 c' =
      (if c' = ''Agent_Age'' \<and> ''Agent_Age'' \<in> set (columns d)
       then fillna (cell_of (median (present_values (column d ''Agent_Age'')))) (column d ''Agent_Age'')
       else column d c')"
  using assms
  by (auto simp: fill_agent_age_def getcol_def series_median_cases columns_setcol_mem rows_setcol
      column_setcol_same column_setcol_other split: if_splits)

lemma derive_InrE:
  assumes "derive raw = Inr st"
  obtains d2 d3 late groups where
    "fill_agent_rating (fill_cat_cols raw) = Inr d2"
    "fill_agent_age d2 = Inr d3"
    "''Delivery_Time'' \<in> set (columns d3)"
    "\<not> list_ex is_str (column d3 ''Delivery_Time'')"
    "mapE (\<lambda>c. py_gt c (fadd (mean (present_values (column d3 ''Delivery_Time'')))
                              (std (present_values (column d3 ''Delivery_Time'')))))
       (column d3 ''Delivery_Time'') = Inr late"
    "''Agent_Age'' \<in> set (columns d3)"
    "mapE age_group (column d3 ''Agent_Age'') = Inr groups"
    "st = \<lparr>df = setcol (setcol d3 ''Is_Late'' (map Bool late)) ''Agent_Age_Group'' groups,
           avg_delivery_time = mean (present_values (column d3 ''Delivery_Time'')),
           std_delivery_time = std (present_values (column d3 ''Delivery_Time'')),
           late_percentage = fmul (mean (present_values (map Bool late))) 100\<rparr>"
proof -
  from assms obtain d2 where d2: "fill_agent_rating (fill_cat_cols raw) = Inr d2"
    by (auto simp: derive_def bindE_eq_Inr)
  from assms d2 obtain d3 where d3: "fill_agent_age d2 = Inr d3"
    by (auto simp: derive_def bindE_eq_Inr)
  let ?dt = "column d3 ''Delivery_Time''"
  let ?xs = "present_values ?dt"
  from assms d2 d3 have dtc: "''Delivery_Time'' \<in> set (columns d3)"
    by (auto simp: derive_def getcol_def split: if_splits)
  then have g: "getcol d3 ''Delivery_Time'' = Inr ?dt" by (simp add: getcol_def)
  from assms d2 d3 g have ns: "\<not> list_ex is_str ?dt"
    by (auto simp: derive_def series_mean_cases split: if_splits)
  from assms d2 d3 g ns obtain late where
    late: "mapE (\<lambda>c. py_gt c (fadd (mean ?xs) (std ?xs))) ?dt = Inr late"
    by (auto simp: derive_def series_mean_cases series_std_cases bindE_eq_Inr)
  let ?d4 = "setcol d3 ''Is_Late'' (map Bool late)"
  have len: "length late = length (rows d3)"
    using mapE_Inr_all2[OF late] by (auto dest: list_all2_lengthD)
  have il: "getcol ?d4 ''Is_Late'' = Inr (map Bool late)"
    using len by (simp add: getcol_def columns_setcol column_setcol_same)
  have nsl: "\<not> list_ex is_str (map Bool late)"
    by (simp add: list_ex_iff)
  from assms d2 d3 g ns late il nsl have agec: "''Agent_Age'' \<in> set (columns ?d4)"
    by (auto simp: derive_def series_mean_cases series_std_cases Let_def getcol_def split: if_splits)
  then have agec3: "''Agent_Age'' \<in> set (columns d3)"
    by (simp add: columns_setcol)
  have ga: "getcol ?d4 ''Agent_Age'' = Inr (column d3 ''Agent_Age'')"
    using agec len by (simp add: getcol_def column_setcol_other)
  from assms d2 d3 g ns late il nsl ga obtain groups where
    groups: "mapE age_group (column d3 ''Agent_Age'') = Inr groups"
    by (auto simp: derive_def series_mean_cases series_std_cases Let_def bindE_eq_Inr)
  from assms d2 d3 g ns late il nsl ga groups have
    "st = \<lparr>df = setcol ?d4 ''Agent_Age_Group'' groups,
           avg_delivery_time = mean ?xs, std_delivery_time = std ?xs,
           late_percentage = fmul (mean (present_values (map Bool late))) 100\<rparr>"
    by (simp add: derive_def series_mean_cases series_std_cases Let_def)
  with d2 d3 dtc ns late agec3 groups show thesis by (rule that)
qed

lemma derive_shape:
  assumes "derive raw = Inr st"
  obtains d2 d3 late groups where
    "fill_agent_rating (fill_cat_cols raw) = Inr d2"
    "fill_agent_age d2 = Inr d3"
    "length late = length (rows raw)"
    "length groups = length (rows raw)"
    "length (rows d3) = length (rows raw)"
    "columns d3 = columns raw"
    "list_all2 (\<lambda>c b. py_gt c (fadd (avg_delivery_time st) (std_delivery_time st)) = Inr b)
       (column d3 ''Delivery_Time'') late"
    "list_all2 (\<lambda>a g. age_group a = Inr g) (column d3 ''Agent_Age'') groups"
    "df st = setcol (setcol d3 ''Is_Late'' (map Bool late)) ''Agent_Age_Group'' groups"
    "avg_delivery_time st = mean (present_values (column d3 ''Delivery_Time''))"
    "std_delivery_time st = std (present_values (column d3 ''Delivery_Time''))"
    "late_percentage st = fmul (mean (present_values (map Bool late))) 100"
    "''Delivery_Time'' \<in> set (columns raw)"
    "''Agent_Age'' \<in> set (columns raw)"
    "\<not> list_ex is_str (column d3 ''Delivery_Time'')"
proof -
  from assms obtain d2 d3 late groups where h:
    "fill_agent_rating (fill_cat_cols raw) = Inr d2"
    "fill_agent_age d2 = Inr d3"
    "''Delivery_Time'' \<in> set (columns d3)"
    "\<not> list_ex is_str (column d3 ''Delivery_Time'')"
    "mapE (\<lambda>c. py_gt c (fadd (mean (present_values (column d3 ''Delivery_Time'')))
                              (std (present_values (column d3 ''Delivery_Time'')))))
       (column d3 ''Delivery_Time'') = Inr late"
    "''Agent_Age'' \<in> set (columns d3)"
    "mapE age_group (column d3 ''Agent_Age'') = Inr groups"
    "st = \<lparr>df = setcol (setcol d3 ''Is_Late'' (map Bool late)) ''Agent_Age_Group'' groups,
           avg_delivery_time = mean (present_values (column d3 ''Delivery_Time'')),
           std_delivery_time = std (present_values (column d3 ''Delivery_Time'')),
           late_percentage = fmul (mean (present_values (map Bool late))) 100\<rparr>"
    by (rule derive_InrE)
  have len3: "length (rows d3) = length (rows raw)"
    using fill_agent_age_Inr(2)[OF h(2)] fill_agent_rating_Inr(2)[OF h(1)]
    by (simp add: fill_cat_cols_def)
  have cols3: "columns d3 = columns raw"
    using fill_agent_age_Inr(1)[OF h(2)] fill_agent_rating_Inr(1)[OF h(1)]
    by (simp add: fill_cat_cols_def)
  have l1: "list_all2 (\<lambda>c b. py_gt c (fadd (avg_delivery_time st) (std_delivery_time st)) = Inr b)
       (column d3 ''Delivery_Time'') late"
    using mapE_Inr_all2[OF h(5)] h(8) by simp
  have l2: "list_all2 (\<lambda>a g. age_group a = Inr g) (column d3 ''Agent_Age'') groups"
    using mapE_Inr_all2[OF h(7)] .
  have len1: "length late = length (rows raw)"
    using list_all2_lengthD[OF l1] len3 by simp
  have len2: "length groups = length (rows raw)"
    using list_all2_lengthD[OF l2] len3 by simp
  show thesis
    by (rule that[OF h(1) h(2) len1 len2 len3 cols3 l1 l2])
       (use h cols3 in simp_all)
qed

lemma fill_cat_cols_column:
  "column (fill_cat_cols d) c =
     (if c \<in> set cat_cols \<and> c \<in> set (columns d)
      then fillna (Str ''Unknown'') (column d c) else column d c)"
  by (simp add: fill_cat_cols_def fold_fill_cat_column)

lemma derive_column:
  assumes "derive raw = Inr st"
  shows "c \<noteq> ''Is_Late'' \<Longrightarrow> c \<noteq> ''Agent_Age_Group'' \<Longrightarrow> column (df st) c =
     (if c \<in> set (columns raw) then
        (if c \<in> set cat_cols then fillna (Str ''Unknown'') (column raw c)
         else if c = ''Agent_Rating''
           then fillna (cell_of (mean (present_values (column raw c)))) (column raw c)
         else if c = ''Agent_Age''
           then fillna (cell_of (median (present_values (column raw c)))) (column raw c)
         else column raw c)
      else column raw c)"
proof -
  assume c: "c \<noteq> ''Is_Late''" "c \<noteq> ''Agent_Age_Group''"
  from assms obtain d2 d3 late groups where h:
    "fill_agent_rating (fill_cat_cols raw) = Inr d2"
    "fill_agent_age d2 = Inr d3"
    "length late = length (rows raw)"
    "length groups = length (rows raw)"
    "length (rows d3) = length (rows raw)"
    "df st = setcol (setcol d3 ''Is_Late'' (map Bool late)) ''Agent_Age_Group'' groups"
    by (rule derive_shape)
  have "column (df st) c = column d3 c"
    using h(3-6) c by (simp add: column_setcol_other rows_setcol)
  also have "\<dots> = (if c = ''Agent_Age'' \<and> ''Agent_Age'' \<in> set (columns d2)
       then fillna (cell_of (median (present_values (column d2 ''Agent_Age'')))) (column d2 ''Agent_Age'')
       else column d2 c)"
    by (rule fill_agent_age_Inr(4)[OF h(2)])
  finally have e: "column (df st) c = (if c = ''Agent_Age'' \<and> ''Agent_Age'' \<in> set (columns d2)
       then fillna (cell_of (median (present_values (column d2 ''Agent_Age'')))) (column d2 ''Agent_Age'')
       else column d2 c)" .
  have cc: "columns (fill_cat_cols raw) = columns raw"
    by (simp add: fill_cat_cols_def)
  have c2: "columns d2 = columns raw"
    using fill_agent_rating_Inr(1)[OF h(1)] cc by simp
  have nr: "''Agent_Rating'' \<notin> set cat_cols" "''Agent_Age'' \<notin> set cat_cols"
    by (simp_all add: cat_cols_def)
  show ?thesis
    unfolding e using c2 cc nr
    by (auto simp: fill_agent_rating_Inr(4)[OF h(1)] fill_cat_cols_column)
qed

lemma derive_length:
  assumes "derive raw = Inr st"
  shows "length (rows (df st)) = length (rows raw)"
proof -
  from assms obtain d3 late groups where h:
    "length late = length (rows raw)"
    "length groups = length (rows raw)"
    "length (rows d3) = length (rows raw)"
    "df st = setcol (setcol d3 ''Is_Late'' (map Bool late)) ''Agent_Age_Group'' groups"
    by (rule derive_shape)
  then show ?thesis by (simp add: rows_setcol)
qed

lemma derive_columns:
  assumes "derive raw = Inr st"
  shows "set (columns (df st)) = set (columns raw) \<union> {''Is_Late'', ''Agent_Age_Group''}"
proof -
  from assms obtain d3 late groups where h:
    "columns d3 = columns raw"
    "df st = setcol (setcol d3 ''Is_Late'' (map Bool late)) ''Agent_Age_Group'' groups"
    by (rule derive_shape)
  then show ?thesis by (auto simp: columns_setcol)
qed

lemma derive_delivery_time:
  assumes "derive raw = Inr st"
  shows "column (df st) ''Delivery_Time'' = column raw ''Delivery_Time''"
  using derive_column[OF assms, of "''Delivery_Time''"]
  by (simp add: cat_cols_def)

lemma derive_is_late:
  assumes "derive raw = Inr st"
  shows "list_all2
      (\<lambda>c l. \<exists>b. l = Bool b \<and> py_gt c (fadd (avg_delivery_time st) (std_delivery_time st)) = Inr b)
      (column (df st) ''Delivery_Time'') (column (df st) ''Is_Late'')"
    and "avg_delivery_time st = mean (present_values (column raw ''Delivery_Time''))"
    and "std_delivery_time st = std (present_values (column raw ''Delivery_Time''))"
    and "late_percentage st = fmul (mean (present_values (column (df st) ''Is_Late''))) 100"
    and "\<not> list_ex is_str (column (df st) ''Delivery_Time'')"
    and "\<not> list_ex is_str (column (df st) ''Is_Late'')"
proof -
  from assms obtain d3 late groups where h:
    "length late = length (rows raw)"
    "length groups = length (rows raw)"
    "length (rows d3) = length (rows raw)"
    "list_all2 (\<lambda>c b. py_gt c (fadd (avg_delivery_time st) (std_delivery_time st)) = Inr b)
       (column d3 ''Delivery_Time'') late"
    "df st = setcol (setcol d3 ''Is_Late'' (map Bool late)) ''Agent_Age_Group'' groups"
    "avg_delivery_time st = mean (present_values (column d3 ''Delivery_Time''))"
    "std_delivery_time st = std (present_values (column d3 ''Delivery_Time''))"
    "late_percentage st = fmul (mean (present_values (map Bool late))) 100"
    "\<not> list_ex is_str (column d3 ''Delivery_Time'')"
    by (rule derive_shape)
  have dt: "column (df st) ''Delivery_Time'' = column d3 ''Delivery_Time''"
    using h(1,2,3,5) by (simp add: column_setcol_other rows_setcol)
  have il: "column (df st) ''Is_Late'' = map Bool late"
    using h(1,2,3,5) by (simp add: column_setcol_other column_setcol_same rows_setcol)
  have raw: "column d3 ''Delivery_Time'' = column raw ''Delivery_Time''"
    using dt derive_delivery_time[OF assms] by simp
  show "list_all2
      (\<lambda>c l. \<exists>b. l = Bool b \<and> py_gt c (fadd (avg_delivery_time st) (std_delivery_time st)) = Inr b)
      (column (df st) ''Delivery_Time'') (column (df st) ''Is_Late'')"
    unfolding dt il using h(4) by (simp add: list_all2_conv_all_nth)
  show "avg_delivery_time st = mean (present_values (column raw ''Delivery_Time''))"
    using h(6) raw by simp
  show "std_delivery_time st = std (present_values (column raw ''Delivery_Time''))"
    using h(7) raw by simp
  show "late_percentage st = fmul (mean (present_values (column (df st) ''Is_Late''))) 100"
    using h(8) il by simp
  show "\<not> list_ex is_str (column (df st) ''Delivery_Time'')"
    using h(9) dt by simp
  show "\<not> list_ex is_str (column (df st) ''Is_Late'')"
    unfolding il by (simp add: list_ex_iff)
qed

lemma derive_age_group:
  assumes "derive raw = Inr st"
  shows "list_all2 (\<lambda>a g. age_group a = Inr g)
           (column (df st) ''Agent_Age'') (column (df st) ''Agent_Age_Group'')"
proof -
  from assms obtain d3 late groups where h:
    "length late = length (rows raw)"
    "length groups = length (rows raw)"
    "length (rows d3) = length (rows raw)"
    "list_all2 (\<lambda>a g. age_group a = Inr g) (column d3 ''Agent_Age'') groups"
    "df st = setcol (setcol d3 ''Is_Late'' (map Bool late)) ''Agent_Age_Group'' groups"
    by (rule derive_shape)
  have a: "column (df st) ''Agent_Age'' = column d3 ''Agent_Age''"
    using h(1,2,3,5) by (simp add: column_setcol_other rows_setcol)
  have g: "column (df st) ''Agent_Age_Group'' = groups"
    using h(1,2,3,5) by (simp add: column_setcol_same rows_setcol)
  show ?thesis unfolding a g by (rule h(4))
qed

lemma row_column:
  "r \<in> set (rows d) \<Longrightarrow> \<exists>i < length (rows d). \<forall>c. r c = column d c ! i"
  by (auto simp: in_set_conv_nth column_def)

subsection \<open>The filter\<close>

lemma py_eq_Str [simp]: "py_eq c (Str v) = (c = Str v)"
  by (cases c) (simp_all add: py_eq_def)

lemma mask_rows:
  "map fst (filter snd (zip xs (map g xs))) = filter g xs"
  by (induction xs) simp_all

lemma mask_select_column:
  "mask_select d (map g (column d col)) = d\<lparr>rows := filter (\<lambda>r. g (r col)) (rows d)\<rparr>"
proof -
  have "map g (column d col) = map (\<lambda>r. g (r col)) (rows d)"
    by (simp add: column_def)
  then show ?thesis
    by (simp add: mask_select_def mask_rows)
qed

lemma apply_filter_Inr:
  assumes "apply_filter col sel d = Inr f"
  shows "f = d\<lparr>rows := filter (\<lambda>r. py_eq sel (Str ''All'') \<or> py_eq (r col) sel) (rows d)\<rparr>"
proof (cases "py_eq sel (Str ''All'')")
  case True
  with assms show ?thesis by (simp add: apply_filter_def)
next
  case False
  with assms have "f = mask_select d (map (\<lambda>v. py_eq v sel) (column d col))"
    by (auto simp: apply_filter_def getcol_def split: if_splits)
  with False show ?thesis by (simp add: mask_select_column)
qed

lemma apply_filter_ok:
  "col \<in> set (columns d) \<Longrightarrow> \<exists>f. apply_filter col sel d = Inr f"
  by (simp add: apply_filter_def getcol_def)

lemma filtered_df_Inr:
  assumes "filtered_df d sel = Inr f"
  shows "f = d\<lparr>rows := filter (\<lambda>r.
      (weather_sel sel = Str ''All'' \<or> py_eq (r ''Weather'') (weather_sel sel)) \<and>
      (traffic_sel sel = Str ''All'' \<or> py_eq (r ''Traffic'') (traffic_sel sel)) \<and>
      (vehicle_sel sel = Str ''All'' \<or> py_eq (r ''Vehicle'') (vehicle_sel sel)) \<and>
      (area_sel sel = Str ''All'' \<or> py_eq (r ''Area'') (area_sel sel)) \<and>
      (cat_sel sel = Str ''All'' \<or> py_eq (r ''Category'') (cat_sel sel))) (rows d)\<rparr>"
proof -
  from assms obtain d1 d2 d3 d4 where h:
    "apply_filter ''Weather'' (weather_sel sel) d = Inr d1"
    "apply_filter ''Traffic'' (traffic_sel sel) d1 = Inr d2"
    "apply_filter ''Vehicle'' (vehicle_sel sel) d2 = Inr d3"
    "apply_filter ''Area'' (area_sel sel) d3 = Inr d4"
    "apply_filter ''Category'' (cat_sel sel) d4 = Inr f"
    by (auto simp: filtered_df_def bindE_eq_Inr)
  show ?thesis
    unfolding apply_filter_Inr[OF h(5)] apply_filter_Inr[OF h(4)] apply_filter_Inr[OF h(3)]
      apply_filter_Inr[OF h(2)] apply_filter_Inr[OF h(1)]
    by (simp add: conj_ac cong: conj_cong)
qed

lemma apply_filter_columns:
  "apply_filter col sel d = Inr f \<Longrightarrow> columns f = columns d"
  by (drule apply_filter_Inr) simp

lemma filtered_df_ok:
  assumes "set cat_cols \<subseteq> set (columns d)"
  shows "\<exists>f. filtered_df d sel = Inr f"
proof -
  from assms have c: "''Weather'' \<in> set (columns d)" "''Traffic'' \<in> set (columns d)"
    "''Vehicle'' \<in> set (columns d)" "''Area'' \<in> set (columns d)" "''Category'' \<in> set (columns d)"
    by (simp_all add: cat_cols_def)
  obtain d1 where d1: "apply_filter ''Weather'' (weather_sel sel) d = Inr d1"
    using apply_filter_ok[OF c(1)] by blast
  have c1: "columns d1 = columns d" by (rule apply_filter_columns[OF d1])
  obtain d2 where d2: "apply_filter ''Traffic'' (traffic_sel sel) d1 = Inr d2"
    using apply_filter_ok[of "''Traffic''" d1] c(2) c1 by auto
  have c2: "columns d2 = columns d" using apply_filter_columns[OF d2] c1 by simp
  obtain d3 where d3: "apply_filter ''Vehicle'' (vehicle_sel sel) d2 = Inr d3"
    using apply_filter_ok[of "''Vehicle''" d2] c(3) c2 by auto
  have c3: "columns d3 = columns d" using apply_filter_columns[OF d3] c2 by simp
  obtain d4 where d4: "apply_filter ''Area'' (area_sel sel) d3 = Inr d4"
    using apply_filter_ok[of "''Area''" d3] c(4) c3 by auto
  have c4: "columns d4 = columns d" using apply_filter_columns[OF d4] c3 by simp
  obtain f where f: "apply_filter ''Category'' (cat_sel sel) d4 = Inr f"
    using apply_filter_ok[of "''Category''" d4] c(5) c4 by auto
  show ?thesis
    by (simp add: filtered_df_def d1 d2 d3 d4 f)
qed

subsection \<open>Grouping\<close>

lemma groupby_mean_empty:
  assumes "rows d = []" "set keys \<subseteq> set (columns d)" "val \<in> set (columns d)"
  shows "groupby_mean d keys val = Inr Map.empty"
  using assms by (auto simp: groupby_mean_def list_all_iff)

lemma groupby_mean_ok:
  assumes "set keys \<subseteq> set (columns d)" "val \<in> set (columns d)"
    and "\<And>r. r \<in> set (rows d) \<Longrightarrow> \<not> is_str (r val)"
  shows "\<exists>g. groupby_mean d keys val = Inr g"
proof -
  let ?rs = "filter (\<lambda>r. \<not> list_ex (\<lambda>c. c = Null) (group_key keys r)) (rows d)"
  let ?ks = "remdups (map (group_key keys) ?rs)"
  let ?grp = "\<lambda>k. map (\<lambda>r. r val) (filter (\<lambda>r. group_key keys r = k) ?rs)"
  have "\<And>k. \<not> list_ex is_str (?grp k)"
    using assms(3) by (auto simp: list_ex_iff)
  then have "\<And>k. series_mean (?grp k) = Inr (mean (present_values (?grp k)))"
    by (simp add: series_mean_cases)
  then have "mapE (\<lambda>k. bindE (series_mean (?grp k)) (\<lambda>m. Inr (k, m))) ?ks
      = Inr (map (\<lambda>k. (k, mean (present_values (?grp k)))) ?ks)"
    by (intro mapE_pure) simp
  then show ?thesis
    using assms(1,2) by (simp add: groupby_mean_def list_all_iff subset_iff Let_def)
qed

lemma groupby_mean_columns:
  "groupby_mean d keys val = Inr g \<Longrightarrow> set keys \<subseteq> set (columns d) \<and> val \<in> set (columns d)"
  by (auto simp: groupby_mean_def list_all_iff split: if_splits)

subsection \<open>When the cleaning succeeds\<close>

lemma mapE_ok:
  "(\<And>x. x \<in> set xs \<Longrightarrow> \<exists>y. f x = Inr y) \<Longrightarrow> \<exists>ys. mapE f xs = Inr ys"
proof (induction xs)
  case Nil
  show ?case by simp
next
  case (Cons a xs)
  from Cons.prems[of a] obtain y where y: "f a = Inr y" by auto
  from Cons.IH Cons.prems obtain ys where "mapE f xs = Inr ys" by auto
  with y show ?case by simp
qed

lemma py_gt_nostr: "\<not> is_str c \<Longrightarrow> \<exists>b. py_gt c t = Inr b"
  by (cases c) (auto simp: py_gt_def)

lemma age_group_nostr: "\<not> is_str c \<Longrightarrow> \<exists>g. age_group c = Inr g"
  by (cases c) (auto simp: age_group_def py_lt_def py_le_def)

lemma age_group_str: "is_str c \<Longrightarrow> age_group c = Inl TypeError"
  by (cases c) (simp_all add: age_group_def py_lt_def py_le_def)

lemma age_group_err: "age_group c = Inl e \<Longrightarrow> e = TypeError"
  by (cases c) (simp_all add: age_group_def py_lt_def py_le_def split: if_splits)

lemma fill_agent_rating_ok:
  "(''Agent_Rating'' \<in> set (columns d) \<Longrightarrow> \<not> list_ex is_str (column d ''Agent_Rating''))
     \<Longrightarrow> \<exists>d2. fill_agent_rating d = Inr d2"
  by (auto simp: fill_agent_rating_def getcol_def series_mean_cases)

lemma fill_agent_age_ok:
  "(''Agent_Age'' \<in> set (columns d) \<Longrightarrow> \<not> list_ex is_str (column d ''Agent_Age''))
     \<Longrightarrow> \<exists>d2. fill_agent_age d = Inr d2"
  by (auto simp: fill_agent_age_def getcol_def series_median_cases)

lemma fill_agent_rating_err: "fill_agent_rating d = Inl e \<Longrightarrow> e = TypeError"
  by (auto simp: fill_agent_rating_def getcol_def series_mean_cases split: if_splits)

lemma fillna_no_str:
  "\<not> list_ex is_str s \<Longrightarrow> \<not> is_str v \<Longrightarrow> \<not> list_ex is_str (fillna v s)"
  by (auto simp: fillna_def list_ex_iff)

lemma cell_of_no_str [simp]: "\<not> is_str (cell_of m)"
  by (cases m) (simp_all add: cell_of_def)

lemma fill_cat_cols_columns [simp]: "columns (fill_cat_cols raw) = columns raw"
  by (simp add: fill_cat_cols_def)

lemma not_cat [simp]:
  "''Agent_Rating'' \<notin> set cat_cols" "''Agent_Age'' \<notin> set cat_cols"
  "''Delivery_Time'' \<notin> set cat_cols"
  by (simp_all add: cat_cols_def)

lemma derive_ok:
  assumes dt: "''Delivery_Time'' \<in> set (columns raw)"
    and age: "''Agent_Age'' \<in> set (columns raw)"
    and ns_dt: "\<not> list_ex is_str (column raw ''Delivery_Time'')"
    and ns_age: "\<not> list_ex is_str (column raw ''Agent_Age'')"
    and ns_rating: "''Agent_Rating'' \<in> set (columns raw) \<Longrightarrow>
           \<not> list_ex is_str (column raw ''Agent_Rating'')"
  shows "\<exists>st. derive raw = Inr st"
proof -
  let ?d1 = "fill_cat_cols raw"
  have r1: "column ?d1 ''Agent_Rating'' = column raw ''Agent_Rating''"
    and a1: "column ?d1 ''Agent_Age'' = column raw ''Agent_Age''"
    and t1: "column ?d1 ''Delivery_Time'' = column raw ''Delivery_Time''"
    by (simp_all add: fill_cat_cols_column)
  obtain d2 where d2: "fill_agent_rating ?d1 = Inr d2"
    using fill_agent_rating_ok[of ?d1] ns_rating r1 by auto
  have c2: "columns d2 = columns raw"
    using fill_agent_rating_Inr(1)[OF d2] by simp
  have a2: "column d2 ''Agent_Age'' = column raw ''Agent_Age''"
    and t2: "column d2 ''Delivery_Time'' = column raw ''Delivery_Time''"
    using a1 t1 by (simp_all add: fill_agent_rating_Inr(4)[OF d2])
  obtain d3 where d3: "fill_agent_age d2 = Inr d3"
    using fill_agent_age_ok[of d2] ns_age a2 by auto
  have c3: "columns d3 = columns raw"
    using fill_agent_age_Inr(1)[OF d3] c2 by simp
  have t3: "column d3 ''Delivery_Time'' = column raw ''Delivery_Time''"
    using t2 by (simp add: fill_agent_age_Inr(4)[OF d3])
  have a3: "\<not> list_ex is_str (column d3 ''Agent_Age'')"
    using ns_age a2 age c2 by (simp add: fill_agent_age_Inr(4)[OF d3] fillna_no_str)
  let ?dt = "column raw ''Delivery_Time''"
  let ?th = "fadd (mean (present_values ?dt)) (std (present_values ?dt))"
  have g: "getcol d3 ''Delivery_Time'' = Inr ?dt"
    using dt c3 t3 by (simp add: getcol_def)
  obtain late where late: "mapE (\<lambda>c. py_gt c ?th) ?dt = Inr late"
    using mapE_ok[of ?dt "\<lambda>c. py_gt c ?th"] py_gt_nostr ns_dt
    by (auto simp: list_ex_iff)
  let ?d4 = "setcol d3 ''Is_Late'' (map Bool late)"
  have len: "length late = length (rows d3)"
    using mapE_Inr_all2[OF late] t3 by (auto dest!: list_all2_lengthD simp: column_def dest: map_eq_imp_length_eq)
  have il: "getcol ?d4 ''Is_Late'' = Inr (map Bool late)"
    using len by (simp add: getcol_def columns_setcol column_setcol_same)
  have nsl: "\<not> list_ex is_str (map Bool late)"
    by (simp add: list_ex_iff)
  have ga: "getcol ?d4 ''Agent_Age'' = Inr (column d3 ''Agent_Age'')"
    using age c3 len by (simp add: getcol_def columns_setcol column_setcol_other)
  obtain groups where groups: "mapE age_group (column d3 ''Agent_Age'') = Inr groups"
    using mapE_ok[of "column d3 ''Agent_Age''" age_group] age_group_nostr a3
    by (auto simp: list_ex_iff)
  show ?thesis
    using ns_dt
    by (simp add: derive_def d2 d3 g series_mean_cases series_std_cases late il nsl ga groups
        del: fill_cat_cols_columns)
qed

lemma options_ok:
  assumes "\<And>x. x \<in> set s \<Longrightarrow> is_str x \<or> x = Null"
  shows "\<exists>opts. options s = Inr opts"
proof -
  have "list_all is_str (remdups (filter (\<lambda>c. c \<noteq> Null) s))"
    using assms by (auto simp: list_all_iff)
  then show ?thesis by (simp add: options_def)
qed

lemma sidebar_ok:
  assumes "set cat_cols \<subseteq> set (columns d)"
    and "\<And>c x. c \<in> set cat_cols \<Longrightarrow> x \<in> set (column d c) \<Longrightarrow> is_str x \<or> x = Null"
  shows "\<exists>opts. sidebar d = Inr opts"
proof -
  have "\<And>c. c \<in> set cat_cols \<Longrightarrow> \<exists>y. bindE (getcol d c) options = Inr y"
  proof -
    fix c assume c: "c \<in> set cat_cols"
    with assms(1) have "getcol d c = Inr (column d c)" by (auto simp: getcol_def)
    moreover have "\<exists>y. options (column d c) = Inr y"
      by (rule options_ok) (use assms(2)[OF c] in blast)
    ultimately show "\<exists>y. bindE (getcol d c) options = Inr y" by simp
  qed
  then have "\<exists>ys. mapE (\<lambda>c. bindE (getcol d c) options) cat_cols = Inr ys"
    by (intro mapE_ok)
  then show ?thesis by (simp add: sidebar_def cat_cols_def)
qed

lemma cat_not_derived:
  "c \<in> set cat_cols \<Longrightarrow> c \<noteq> ''Is_Late'' \<and> c \<noteq> ''Agent_Age_Group''"
  by (auto simp: cat_cols_def)

lemma derive_cat_column:
  assumes "derive raw = Inr st" "c \<in> set cat_cols" "c \<in> set (columns raw)"
  shows "column (df st) c = fillna (Str ''Unknown'') (column raw c)"
  using derive_column[OF assms(1), of c] cat_not_derived[OF assms(2)] assms(2,3) by simp

lemma derived_sidebar_ok:
  assumes "derive raw = Inr st" and "set cat_cols \<subseteq> set (columns raw)"
    and "\<And>c x. c \<in> set cat_cols \<Longrightarrow> x \<in> set (column raw c) \<Longrightarrow> is_str x \<or> x = Null"
  shows "\<exists>opts. sidebar (df st) = Inr opts"
proof (rule sidebar_ok)
  show "set cat_cols \<subseteq> set (columns (df st))"
    using assms(2) derive_columns[OF assms(1)] by auto
next
  fix c x assume c: "c \<in> set cat_cols" and x: "x \<in> set (column (df st) c)"
  from c assms(2) have "c \<in> set (columns raw)" by auto
  from x derive_cat_column[OF assms(1) c this]
  have "x \<in> set (fillna (Str ''Unknown'') (column raw c))" by simp
  then show "is_str x \<or> x = Null"
    using assms(3)[OF c] by (auto simp: fillna_def)
qed


subsection \<open>The whole script\<close>

lemma sidebar_columns:
  assumes "sidebar d = Inr opts"
  shows "set cat_cols \<subseteq> set (columns d)"
  using assms
  by (auto simp: sidebar_def cat_cols_def bindE_eq_Inr getcol_def split: if_splits)

lemma app_InrE:
  assumes "app raw sel = Inr out"
  obtains opts g1 g2 g4 g6 where
    "derive raw = Inr (state out)"
    "sidebar (df (state out)) = Inr opts"
    "filtered_df (df (state out)) sel = Inr (filtered out)"
    "groupby_mean (filtered out) [''Weather'', ''Traffic''] ''Delivery_Time'' = Inr g1"
    "groupby_mean (filtered out) [''Vehicle''] ''Delivery_Time'' = Inr g2"
    "groupby_mean (filtered out) [''Area''] ''Delivery_Time'' = Inr g4"
    "groupby_mean (filtered out) [''Weather''] ''Is_Late'' = Inr g6"
    "fig1_data out = g1" "fig2_data out = g2" "fig4_data out = g4"
    "late_df out = (\<lambda>k. map_option (\<lambda>m. (m, fmul m 100)) (g6 k))"
    "records_filtered out = length (rows (filtered out))"
proof -
  from assms obtain st opts f g1 g2 g4 g6 where h:
    "derive raw = Inr st" "sidebar (df st) = Inr opts" "filtered_df (df st) sel = Inr f"
    "groupby_mean f [''Weather'', ''Traffic''] ''Delivery_Time'' = Inr g1"
    "groupby_mean f [''Vehicle''] ''Delivery_Time'' = Inr g2"
    "groupby_mean f [''Area''] ''Delivery_Time'' = Inr g4"
    "groupby_mean f [''Weather''] ''Is_Late'' = Inr g6"
    "out = \<lparr>state = st, filtered = f, records_filtered = length (rows f),
          fig1_data = g1, fig2_data = g2, fig4_data = g4,
          late_df = (\<lambda>k. map_option (\<lambda>m. (m, fmul m 100)) (g6 k))\<rparr>"
    unfolding app_def bindE_eq_Inr by blast
  show thesis
    by (rule that[of opts g1 g2 g4 g6]) (use h in simp_all)
qed

lemma filtered_rows_subset:
  "filtered_df d sel = Inr f \<Longrightarrow> set (rows f) \<subseteq> set (rows d) \<and> columns f = columns d"
  by (drule filtered_df_Inr) (erule ssubst, simp)

lemma column_no_str:
  "\<not> list_ex is_str (column d c) \<Longrightarrow> r \<in> set (rows d) \<Longrightarrow> \<not> is_str (r c)"
  by (auto simp: list_ex_iff column_def)

lemma app_ok:
  assumes "derive raw = Inr st" and "sidebar (df st) = Inr opts"
  shows "\<exists>out. app raw sel = Inr out"
proof -
  have cc: "set cat_cols \<subseteq> set (columns (df st))"
    by (rule sidebar_columns[OF assms(2)])
  obtain f where f: "filtered_df (df st) sel = Inr f"
    using filtered_df_ok[OF cc] by blast
  have sub: "set (rows f) \<subseteq> set (rows (df st))" and cf: "columns f = columns (df st)"
    using filtered_rows_subset[OF f] by simp_all
  have cols: "''Delivery_Time'' \<in> set (columns f)" "''Is_Late'' \<in> set (columns f)"
    using derive_columns[OF assms(1)] derive_shape[OF assms(1)] cf by auto
  have keys: "''Weather'' \<in> set (columns f)" "''Traffic'' \<in> set (columns f)"
    "''Vehicle'' \<in> set (columns f)" "''Area'' \<in> set (columns f)"
    using cc cf by (simp_all add: cat_cols_def)
  have ns1: "\<And>r. r \<in> set (rows f) \<Longrightarrow> \<not> is_str (r ''Delivery_Time'')"
    using column_no_str[OF derive_is_late(5)[OF assms(1)]] sub by blast
  have ns2: "\<And>r. r \<in> set (rows f) \<Longrightarrow> \<not> is_str (r ''Is_Late'')"
    using column_no_str[OF derive_is_late(6)[OF assms(1)]] sub by blast
  obtain g1 where g1: "groupby_mean f [''Weather'', ''Traffic''] ''Delivery_Time'' = Inr g1"
    using groupby_mean_ok[of "[''Weather'', ''Traffic'']" f "''Delivery_Time''"] keys cols ns1 by auto
  obtain g2 where g2: "groupby_mean f [''Vehicle''] ''Delivery_Time'' = Inr g2"
    using groupby_mean_ok[of "[''Vehicle'']" f "''Delivery_Time''"] keys cols ns1 by auto
  obtain g4 where g4: "groupby_mean f [''Area''] ''Delivery_Time'' = Inr g4"
    using groupby_mean_ok[of "[''Area'']" f "''Delivery_Time''"] keys cols ns1 by auto
  obtain g6 where g6: "groupby_mean f [''Weather''] ''Is_Late'' = Inr g6"
    using groupby_mean_ok[of "[''Weather'']" f "''Is_Late''"] keys cols ns2 by auto
  show ?thesis
    by (simp add: app_def assms f g1 g2 g4 g6)
qed

subsection \<open>The example tables\<close>

lemma sample_columns_eval:
  "column sample_raw ''Weather'' = [Str ''Sunny'', Str ''Sunny'', Str ''Rain'', Str ''Rain'']"
  "column sample_raw ''Traffic'' = [Str ''Low'', Str ''Low'', Str ''Low'', Str ''Low'']"
  "column sample_raw ''Vehicle'' = [Str ''Bike'', Null, Str ''Bike'', Str ''Bike'']"
  "column sample_raw ''Area'' = [Str ''Urban'', Str ''Urban'', Str ''Urban'', Str ''Rural'']"
  "column sample_raw ''Category'' = [Str ''Food'', Str ''Food'', Str ''Food'', Str ''Food'']"
  "column sample_raw ''Agent_Rating'' = [Num 4, Null, Num 5, Num 3]"
  "column sample_raw ''Agent_Age'' = [Num 24, Null, Num 41, Num 30]"
  "column sample_raw ''Delivery_Time'' = [Num 1, Num 1, Num 1, Num 5]"
  by (simp_all add: column_def sample_raw_def sample_row_def)

lemma sample_derive_ok: "\<exists>st. derive sample_raw = Inr st"
  by (rule derive_ok) (simp_all add: sample_columns_eval, simp_all add: sample_raw_def sample_columns_def)

lemma sample_app_ok: "\<exists>out. app sample_raw sel = Inr out"
proof -
  obtain st where st: "derive sample_raw = Inr st"
    using sample_derive_ok by blast
  have "\<exists>opts. sidebar (df st) = Inr opts"
  proof (rule derived_sidebar_ok[OF st])
    show "set cat_cols \<subseteq> set (columns sample_raw)"
      by (simp add: cat_cols_def sample_raw_def sample_columns_def)
  next
    fix c x assume "c \<in> set cat_cols" "x \<in> set (column sample_raw c)"
    then show "is_str x \<or> x = Null"
      by (auto simp: cat_cols_def sample_columns_eval)
  qed
  then show ?thesis using app_ok[OF st] by blast
qed

subsection \<open>Rows and columns\<close>

lemma rows_all2:
  assumes "list_all2 P (column d a) (column d b)" and "r \<in> set (rows d)"
  shows "P (r a) (r b)"
proof -
  from assms(1) have "list_all2 (\<lambda>r r'. P (r a) (r' b)) (rows d) (rows d)"
    by (simp add: column_def list_all2_map1 list_all2_map2)
  with assms(2) show ?thesis by (simp add: list_all2_same)
qed

lemma app_state:
  assumes "app raw sel = Inr out" and "app raw sel' = Inr out'"
  shows "state out' = state out"
proof -
  from assms(1) have "derive raw = Inr (state out)" by (rule app_InrE)
  moreover from assms(2) have "derive raw = Inr (state out')" by (rule app_InrE)
  ultimately show ?thesis by simp
qed

lemma py_gt_Num: "py_gt (Num x) (Some t) = Inr (t < x)"
  by (simp add: py_gt_def)

lemma py_gt_Null: "py_gt Null t = Inr False"
  by (simp add: py_gt_def)

lemma bool_values_map:
  "length (present_values (map Bool bs)) = length bs \<and>
   sum_list (present_values (map Bool bs)) = real (length (filter (\<lambda>c. c = Bool True) (map Bool bs)))"
  by (induction bs) (simp_all add: present_values_def)

lemma bool_values:
  assumes "\<And>c. c \<in> set s \<Longrightarrow> \<exists>b. c = Bool b"
  shows "length (present_values s) = length s"
    and "sum_list (present_values s) = real (length (filter (\<lambda>c. c = Bool True) s))"
proof -
  from assms have "\<exists>bs. s = map Bool bs"
    by (simp add: ex_map_conv)
  then obtain bs where "s = map Bool bs" ..
  then show "length (present_values s) = length s"
    and "sum_list (present_values s) = real (length (filter (\<lambda>c. c = Bool True) s))"
    using bool_values_map[of bs] by simp_all
qed

lemma count_column:
  "length (filter (\<lambda>c. c = v) (column d a)) = length (filter (\<lambda>r. r a = v) (rows d))"
  by (simp add: column_def filter_map comp_def)


lemma sample_derived:
  assumes "derive sample_raw = Inr st"
  shows "avg_delivery_time st = Some 2" "std_delivery_time st = Some 2"
    "column (df st) ''Is_Late'' = [Bool False, Bool False, Bool False, Bool True]"
    "length (rows (df st)) = 4"
proof -
  show a: "avg_delivery_time st = Some 2"
    using derive_is_late(2)[OF assms]
    by (simp add: sample_columns_eval present_values_def mean_def)
  show s: "std_delivery_time st = Some 2"
    using derive_is_late(3)[OF assms]
    by (simp add: sample_columns_eval present_values_def std_def)
  show "column (df st) ''Is_Late'' = [Bool False, Bool False, Bool False, Bool True]"
    using derive_is_late(1)[OF assms]
    unfolding derive_delivery_time[OF assms] a s
    by (auto simp: sample_columns_eval list_all2_Cons1 py_gt_def fadd_def)
  show "length (rows (df st)) = 4"
    using derive_length[OF assms] by (simp add: sample_raw_def)
qed

lemma derive_ok_iff:
  "(\<exists>st. derive raw = Inr st) \<longleftrightarrow>
     ''Delivery_Time'' \<in> set (columns raw) \<and> ''Agent_Age'' \<in> set (columns raw) \<and>
     \<not> list_ex is_str (column raw ''Delivery_Time'') \<and>
     \<not> list_ex is_str (column raw ''Agent_Age'') \<and>
     (''Agent_Rating'' \<in> set (columns raw) \<longrightarrow> \<not> list_ex is_str (column raw ''Agent_Rating''))"
proof
  assume "\<exists>st. derive raw = Inr st"
  then obtain st where st: "derive raw = Inr st" ..
  from st obtain d2 d3 where h:
    "fill_agent_rating (fill_cat_cols raw) = Inr d2"
    "fill_agent_age d2 = Inr d3"
    "''Delivery_Time'' \<in> set (columns raw)"
    "''Agent_Age'' \<in> set (columns raw)"
    by (rule derive_shape)
  have c2: "columns d2 = columns raw"
    using fill_agent_rating_Inr(1)[OF h(1)] by simp
  have a2: "column d2 ''Agent_Age'' = column raw ''Agent_Age''"
    by (simp add: fill_agent_rating_Inr(4)[OF h(1)] fill_cat_cols_column)
  have "\<not> list_ex is_str (column raw ''Agent_Age'')"
    using fill_agent_age_Inr(3)[OF h(2)] h(4) c2 a2 by simp
  moreover have "''Agent_Rating'' \<in> set (columns raw) \<longrightarrow>
      \<not> list_ex is_str (column raw ''Agent_Rating'')"
    using fill_agent_rating_Inr(3)[OF h(1)] by (simp add: fill_cat_cols_column)
  moreover have "\<not> list_ex is_str (column raw ''Delivery_Time'')"
    using derive_is_late(5)[OF st] derive_delivery_time[OF st] by simp
  ultimately show "''Delivery_Time'' \<in> set (columns raw) \<and> ''Agent_Age'' \<in> set (columns raw) \<and>
     \<not> list_ex is_str (column raw ''Delivery_Time'') \<and>
     \<not> list_ex is_str (column raw ''Agent_Age'') \<and>
     (''Agent_Rating'' \<in> set (columns raw) \<longrightarrow> \<not> list_ex is_str (column raw ''Agent_Rating''))"
    using h(3,4) by blast
next
  assume "''Delivery_Time'' \<in> set (columns raw) \<and> ''Agent_Age'' \<in> set (columns raw) \<and>
     \<not> list_ex is_str (column raw ''Delivery_Time'') \<and>
     \<not> list_ex is_str (column raw ''Agent_Age'') \<and>
     (''Agent_Rating'' \<in> set (columns raw) \<longrightarrow> \<not> list_ex is_str (column raw ''Agent_Rating''))"
  then show "\<exists>st. derive raw = Inr st"
    by (intro derive_ok) blast+
qed

lemma row_in_column: "r \<in> set (rows d) \<Longrightarrow> r c \<in> set (column d c)"
  by (simp add: column_def)

lemma no_area_columns_eval:
  "column sample_no_area c = column sample_raw c"
  "columns sample_no_area = [''Weather'', ''Traffic'', ''Vehicle'', ''Category'',
     ''Agent_Rating'', ''Agent_Age'', ''Delivery_Time'']"
  by (simp_all add: sample_no_area_def column_def sample_columns_def)

lemma no_area_derive_ok: "\<exists>st. derive sample_no_area = Inr st"
  by (rule derive_ok) (simp_all add: no_area_columns_eval sample_columns_eval)

lemma derive_str_age:
  assumes "''Agent_Age'' \<in> set (columns raw)"
    and "list_ex is_str (column raw ''Agent_Age'')"
  shows "derive raw = Inl TypeError"
proof (cases "fill_agent_rating (fill_cat_cols raw)")
  case (Inl e)
  then have "e = TypeError" by (rule fill_agent_rating_err)
  with Inl show ?thesis by (simp add: derive_def)
next
  case (Inr d2)
  have c2: "columns d2 = columns raw"
    using fill_agent_rating_Inr(1)[OF Inr] by simp
  have a2: "column d2 ''Agent_Age'' = column raw ''Agent_Age''"
    by (simp add: fill_agent_rating_Inr(4)[OF Inr] fill_cat_cols_column)
  have "fill_agent_age d2 = Inl TypeError"
    using assms c2 a2 by (simp add: fill_agent_age_def getcol_def series_median_cases)
  with Inr show ?thesis by (simp add: derive_def)
qed

lemma mapE_age_group_str:
  assumes "list_ex is_str ages"
  shows "mapE age_group ages = Inl TypeError"
proof -
  from assms obtain c where c: "c \<in> set ages" "is_str c"
    by (auto simp: list_ex_iff)
  show ?thesis
  proof (rule mapE_Inl[OF c(1)])
    show "age_group c = Inl TypeError" using c(2) by (rule age_group_str)
    show "\<And>y e'. age_group y = Inl e' \<Longrightarrow> e' = TypeError" by (rule age_group_err)
  qed
qed

lemma mapE_age_group_ok:
  assumes "\<not> list_ex is_str ages"
  shows "\<exists>gs. mapE age_group ages = Inr gs \<and> length gs = length ages"
proof -
  have "\<exists>gs. mapE age_group ages = Inr gs"
    by (rule mapE_ok) (use assms age_group_nostr in \<open>auto simp: list_ex_iff\<close>)
  then obtain gs where gs: "mapE age_group ages = Inr gs" ..
  from mapE_Inr_all2[OF gs] have "length gs = length ages"
    by (auto dest: list_all2_lengthD)
  with gs show ?thesis by blast
qed

lemma bad_age_columns_eval:
  "''Agent_Age'' \<in> set (columns bad_age_raw)"
  "column bad_age_raw ''Agent_Age'' = [Num 24, Null, Num 41, Num 30, Str ''abc'']"
  by (simp_all add: bad_age_raw_def sample_raw_def sample_columns_def column_def sample_row_def)

lemma null_time_columns_eval:
  "columns null_time_raw = sample_columns"
  "column null_time_raw ''Delivery_Time'' = [Num 1, Num 1, Num 1, Num 5, Null]"
  "column null_time_raw ''Agent_Age'' = [Num 24, Null, Num 41, Num 30, Num 24]"
  "column null_time_raw ''Agent_Rating'' = [Num 4, Null, Num 5, Num 3, Num 4]"
  by (simp_all add: null_time_raw_def sample_raw_def column_def sample_row_def)

lemma null_time_derive_ok: "\<exists>st. derive null_time_raw = Inr st"
  by (rule derive_ok) (simp_all add: null_time_columns_eval sample_columns_def)

lemma null_time_derived:
  assumes "derive null_time_raw = Inr st"
  shows "avg_delivery_time st = Some 2" "std_delivery_time st = Some 2"
    "column (df st) ''Is_Late'' = [Bool False, Bool False, Bool False, Bool True, Bool False]"
proof -
  show a: "avg_delivery_time st = Some 2"
    using derive_is_late(2)[OF assms]
    by (simp add: null_time_columns_eval present_values_def mean_def)
  show s: "std_delivery_time st = Some 2"
    using derive_is_late(3)[OF assms]
    by (simp add: null_time_columns_eval present_values_def std_def)
  show "column (df st) ''Is_Late'' = [Bool False, Bool False, Bool False, Bool True, Bool False]"
    using derive_is_late(1)[OF assms]
    unfolding derive_delivery_time[OF assms] a s
    by (auto simp: null_time_columns_eval list_all2_Cons1 py_gt_def fadd_def)
qed

lemma py_gt_None: "py_gt c None = Inr b \<Longrightarrow> b = False"
  by (cases c) (simp_all add: py_gt_def)

lemma fadd_Some: "fadd (Some m) (Some s) = Some (m + s)"
  by (simp add: fadd_def)

lemma fadd_None: "a = None \<or> b = None \<Longrightarrow> fadd a b = None"
  by (auto simp: fadd_def split: option.splits)

lemma app_ok_raw:
  assumes "''Delivery_Time'' \<in> set (columns raw)" and "''Agent_Age'' \<in> set (columns raw)"
    and "\<not> list_ex is_str (column raw ''Delivery_Time'')"
    and "\<not> list_ex is_str (column raw ''Agent_Age'')"
    and "''Agent_Rating'' \<in> set (columns raw) \<Longrightarrow> \<not> list_ex is_str (column raw ''Agent_Rating'')"
    and "set cat_cols \<subseteq> set (columns raw)"
    and "\<And>c x. c \<in> set cat_cols \<Longrightarrow> x \<in> set (column raw c) \<Longrightarrow> is_str x \<or> x = Null"
  shows "\<exists>out. app raw sel = Inr out"
proof -
  obtain st where st: "derive raw = Inr st"
    using derive_ok[OF assms(1-5)] by blast
  have "\<exists>opts. sidebar (df st) = Inr opts"
    by (rule derived_sidebar_ok[OF st assms(6)]) (rule assms(7))
  then obtain opts where "sidebar (df st) = Inr opts" ..
  from app_ok[OF st this] show ?thesis .
qed

lemma spread_columns_eval:
  "columns spread_raw = sample_columns"
  "column spread_raw ''Delivery_Time'' = [Num 6, Num 0, Null, Num 10, Num 2, Num 9, Num 3]"
  "column spread_raw ''Agent_Age'' = [Num 24, Num 24, Num 24, Num 24, Num 24, Num 24, Num 24]"
  "column spread_raw ''Agent_Rating'' = [Num 4, Num 4, Num 4, Num 4, Num 4, Num 4, Num 4]"
  by (simp_all add: spread_raw_def column_def sample_row_def)

lemma spread_app_ok: "\<exists>out. app spread_raw sel = Inr out"
proof (rule app_ok_raw)
  fix c x assume "c \<in> set cat_cols" "x \<in> set (column spread_raw c)"
  then show "is_str x \<or> x = Null"
    by (auto simp: cat_cols_def column_def spread_raw_def sample_row_def)
qed (simp_all add: spread_columns_eval sample_columns_def cat_cols_def)

lemma single_columns_eval:
  "columns single_raw = sample_columns"
  "column single_raw ''Delivery_Time'' = [Num 1]"
  "column single_raw ''Agent_Age'' = [Num 24]"
  "column single_raw ''Agent_Rating'' = [Num 4]"
  by (simp_all add: single_raw_def column_def sample_row_def)

lemma single_app_ok: "\<exists>out. app single_raw sel = Inr out"
proof (rule app_ok_raw)
  fix c x assume "c \<in> set cat_cols" "x \<in> set (column single_raw c)"
  then show "is_str x \<or> x = Null"
    by (auto simp: cat_cols_def column_def single_raw_def sample_row_def)
qed (simp_all add: single_columns_eval sample_columns_def cat_cols_def)

lemma sqrt_16: "sqrt 16 = 4"
  by (rule real_sqrt_unique) simp_all

lemma sort_not_Nil: "xs \<noteq> [] \<Longrightarrow> sort xs \<noteq> ([] :: real list)"
proof
  assume "xs \<noteq> []" and "sort xs = []"
  from this(2) have "length (sort xs) = 0" by simp
  with \<open>xs \<noteq> []\<close> show False by simp
qed

lemma fill_null_null: "map (\<lambda>x. if x = Null then Null else x) s = s"
  by (induction s) simp_all

lemma even_ages_columns_eval:
  "columns even_ages_raw = sample_columns"
  "column even_ages_raw ''Delivery_Time'' = [Num 1, Num 1, Num 1, Num 1, Num 1]"
  "column even_ages_raw ''Agent_Age'' = [Num 41, Num 24, Null, Num 30, Num 50]"
  "column even_ages_raw ''Agent_Rating'' = [Num 5, Null, Num 1, Num 3, Num 4]"
  by (simp_all add: even_ages_raw_def column_def sample_row_def)

lemma odd_ages_columns_eval:
  "columns odd_ages_raw = sample_columns"
  "column odd_ages_raw ''Delivery_Time'' = [Num 1, Num 1, Num 1, Num 1, Num 1, Num 1]"
  "column odd_ages_raw ''Agent_Age'' = [Num 41, Num 24, Null, Num 30, Num 50, Num 25]"
  "column odd_ages_raw ''Agent_Rating'' = [Num 5, Null, Num 1, Num 3, Num 4, Num 2]"
  by (simp_all add: odd_ages_raw_def even_ages_raw_def column_def sample_row_def)

lemma even_ages_derive_ok: "\<exists>st. derive even_ages_raw = Inr st"
  by (rule derive_ok) (simp_all add: even_ages_columns_eval sample_columns_def)

lemma odd_ages_derive_ok: "\<exists>st. derive odd_ages_raw = Inr st"
  by (rule derive_ok) (simp_all add: odd_ages_columns_eval sample_columns_def)

section \<open>Age groups\<close>

text \<open>
  Claim C4. For every numeric age, \<^verbatim>\<open>age_group\<close> returns "<25" below 25, "25-40" from 25
  to 40 inclusive and "40+" above 40; the boundary ages 24, 25, 40 and 41 fall in
  "<25", "25-40", "25-40" and "40+".
\<close>

theorem age_group_buckets:
  "(a < 25 \<longrightarrow> age_group (Num a) = Inr (Str ''<25'')) \<and>
   (25 \<le> a \<and> a \<le> 40 \<longrightarrow> age_group (Num a) = Inr (Str ''25-40'')) \<and>
   (40 < a \<longrightarrow> age_group (Num a) = Inr (Str ''40+'')) \<and>
   age_group (Num 24) = Inr (Str ''<25'') \<and>
   age_group (Num 25) = Inr (Str ''25-40'') \<and>
   age_group (Num 40) = Inr (Str ''25-40'') \<and>
   age_group (Num 41) = Inr (Str ''40+'')"
  by (simp add: age_group_def py_lt_def py_le_def)

theorem age_group_buckets_witness:
  "age_group (Num 18) = Inr (Str ''<25'') \<and>
   age_group (Num 33) = Inr (Str ''25-40'') \<and>
   age_group (Num 57) = Inr (Str ''40+'')"
  using age_group_buckets [of 18] age_group_buckets [of 33] age_group_buckets [of 57]
  by simp

section \<open>The lateness flag\<close>

text \<open>
  Claim C1. In every row of the derived table, and so in every row of every filtered
  view, \<open>Is_Late\<close> is the outcome of comparing that row's \<open>Delivery_Time\<close> with the
  mean plus the sample standard deviation of the \<open>Delivery_Time\<close> column of the whole
  loaded table (the column is the same before and after the cleaning). The two scalars
  and the derived table are the same for every filter selection.

  Spelled out: with \<open>xs\<close> the delivery times present in the loaded table, the mean is
  the sum of \<open>xs\<close> over their number, the standard deviation is the square root of the
  sum of the squared distances to the mean over the number of values less one, and a
  row with the time \<open>x\<close> is late exactly when \<open>m + s < x\<close> for the mean \<open>m\<close> and the
  standard deviation \<open>s\<close>. When the mean or the standard deviation is NaN (fewer than
  two times present), and in a row whose own time is missing, \<open>Is_Late\<close> is false.
\<close>

theorem is_late_fixed_threshold:
  assumes "app raw sel = Inr out"
  shows "avg_delivery_time (state out) = mean (present_values (column raw ''Delivery_Time'')) \<and>
    std_delivery_time (state out) = std (present_values (column raw ''Delivery_Time'')) \<and>
    column (df (state out)) ''Delivery_Time'' = column raw ''Delivery_Time'' \<and>
    (\<forall>r \<in> set (rows (df (state out))). \<exists>b. r ''Is_Late'' = Bool b \<and>
       py_gt (r ''Delivery_Time'')
         (fadd (avg_delivery_time (state out)) (std_delivery_time (state out))) = Inr b) \<and>
    (\<forall>r \<in> set (rows (df (state out))). \<forall>x t. r ''Delivery_Time'' = Num x \<longrightarrow>
       fadd (avg_delivery_time (state out)) (std_delivery_time (state out)) = Some t \<longrightarrow>
       r ''Is_Late'' = Bool (t < x)) \<and>
    (\<forall>r \<in> set (rows (filtered out)). \<exists>b. r ''Is_Late'' = Bool b \<and>
       py_gt (r ''Delivery_Time'')
         (fadd (avg_delivery_time (state out)) (std_delivery_time (state out))) = Inr b) \<and>
    (\<forall>sel' out'. app raw sel' = Inr out' \<longrightarrow>
       avg_delivery_time (state out') = avg_delivery_time (state out) \<and>
       std_delivery_time (state out') = std_delivery_time (state out) \<and>
       df (state out') = df (state out)) \<and>
    (\<forall>xs. xs = map num_key (filter (\<lambda>c. c \<noteq> Null) (column raw ''Delivery_Time'')) \<longrightarrow>
       (xs = [] \<longrightarrow> avg_delivery_time (state out) = None) \<and>
       (xs \<noteq> [] \<longrightarrow> avg_delivery_time (state out) = Some (sum_list xs / real (length xs))) \<and>
       (length xs < 2 \<longrightarrow> std_delivery_time (state out) = None) \<and>
       (2 \<le> length xs \<longrightarrow> std_delivery_time (state out) =
          Some (sqrt (sum_list (map (\<lambda>x. (x - sum_list xs / real (length xs))\<^sup>2) xs)
                      / real (length xs - 1))))) \<and>
    (\<forall>r \<in> set (rows (df (state out))) \<union> set (rows (filtered out)).
       (\<forall>x m s. r ''Delivery_Time'' = Num x \<longrightarrow>
          avg_delivery_time (state out) = Some m \<longrightarrow> std_delivery_time (state out) = Some s \<longrightarrow>
          r ''Is_Late'' = Bool (m + s < x)) \<and>
       (avg_delivery_time (state out) = None \<or> std_delivery_time (state out) = None \<longrightarrow>
          r ''Is_Late'' = Bool False) \<and>
       (r ''Delivery_Time'' = Null \<longrightarrow> r ''Is_Late'' = Bool False))"
proof -
  let ?st = "state out"
  let ?th = "fadd (avg_delivery_time ?st) (std_delivery_time ?st)"
  from assms have d: "derive raw = Inr ?st" by (rule app_InrE)
  from assms have f: "filtered_df (df ?st) sel = Inr (filtered out)" by (rule app_InrE)
  have late: "\<And>r. r \<in> set (rows (df ?st)) \<Longrightarrow>
      \<exists>b. r ''Is_Late'' = Bool b \<and> py_gt (r ''Delivery_Time'') ?th = Inr b"
    using rows_all2[OF derive_is_late(1)[OF d]] by blast
  have sub: "set (rows (filtered out)) \<subseteq> set (rows (df ?st))"
    using filtered_rows_subset[OF f] by simp
  have num: "\<And>r x t. r \<in> set (rows (df ?st)) \<Longrightarrow> r ''Delivery_Time'' = Num x \<Longrightarrow>
      ?th = Some t \<Longrightarrow> r ''Is_Late'' = Bool (t < x)"
    using late by (fastforce simp: py_gt_Num)
  have inv: "\<And>sel' out'. app raw sel' = Inr out' \<Longrightarrow> state out' = ?st"
    using app_state[OF assms] by blast
  have old: "avg_delivery_time (state out) = mean (present_values (column raw ''Delivery_Time'')) \<and>
    std_delivery_time (state out) = std (present_values (column raw ''Delivery_Time'')) \<and>
    column (df (state out)) ''Delivery_Time'' = column raw ''Delivery_Time'' \<and>
    (\<forall>r \<in> set (rows (df (state out))). \<exists>b. r ''Is_Late'' = Bool b \<and>
       py_gt (r ''Delivery_Time'')
         (fadd (avg_delivery_time (state out)) (std_delivery_time (state out))) = Inr b) \<and>
    (\<forall>r \<in> set (rows (df (state out))). \<forall>x t. r ''Delivery_Time'' = Num x \<longrightarrow>
       fadd (avg_delivery_time (state out)) (std_delivery_time (state out)) = Some t \<longrightarrow>
       r ''Is_Late'' = Bool (t < x)) \<and>
    (\<forall>r \<in> set (rows (filtered out)). \<exists>b. r ''Is_Late'' = Bool b \<and>
       py_gt (r ''Delivery_Time'')
         (fadd (avg_delivery_time (state out)) (std_delivery_time (state out))) = Inr b) \<and>
    (\<forall>sel' out'. app raw sel' = Inr out' \<longrightarrow>
       avg_delivery_time (state out') = avg_delivery_time (state out) \<and>
       std_delivery_time (state out') = std_delivery_time (state out) \<and>
       df (state out') = df (state out))"
    using derive_is_late(2,3)[OF d] derive_delivery_time[OF d] late sub num inv
    by (intro conjI ballI allI impI) auto
  have stats: "\<forall>xs. xs = map num_key (filter (\<lambda>c. c \<noteq> Null) (column raw ''Delivery_Time'')) \<longrightarrow>
       (xs = [] \<longrightarrow> avg_delivery_time (state out) = None) \<and>
       (xs \<noteq> [] \<longrightarrow> avg_delivery_time (state out) = Some (sum_list xs / real (length xs))) \<and>
       (length xs < 2 \<longrightarrow> std_delivery_time (state out) = None) \<and>
       (2 \<le> length xs \<longrightarrow> std_delivery_time (state out) =
          Some (sqrt (sum_list (map (\<lambda>x. (x - sum_list xs / real (length xs))\<^sup>2) xs)
                      / real (length xs - 1))))"
    using derive_is_late(2,3)[OF d]
    by (simp add: present_values_def mean_def std_def Let_def)
  have rowp: "\<And>r. r \<in> set (rows (df ?st)) \<Longrightarrow>
       (\<forall>x m s. r ''Delivery_Time'' = Num x \<longrightarrow>
          avg_delivery_time ?st = Some m \<longrightarrow> std_delivery_time ?st = Some s \<longrightarrow>
          r ''Is_Late'' = Bool (m + s < x)) \<and>
       (avg_delivery_time ?st = None \<or> std_delivery_time ?st = None \<longrightarrow>
          r ''Is_Late'' = Bool False) \<and>
       (r ''Delivery_Time'' = Null \<longrightarrow> r ''Is_Late'' = Bool False)"
  proof -
    fix r assume r: "r \<in> set (rows (df ?st))"
    from late[OF r] obtain b where b: "r ''Is_Late'' = Bool b"
      "py_gt (r ''Delivery_Time'') ?th = Inr b" by blast
    have 1: "\<forall>x m s. r ''Delivery_Time'' = Num x \<longrightarrow>
          avg_delivery_time ?st = Some m \<longrightarrow> std_delivery_time ?st = Some s \<longrightarrow>
          r ''Is_Late'' = Bool (m + s < x)"
      using b by (auto simp: fadd_Some py_gt_Num)
    have 2: "avg_delivery_time ?st = None \<or> std_delivery_time ?st = None \<longrightarrow>
          r ''Is_Late'' = Bool False"
    proof
      assume "avg_delivery_time ?st = None \<or> std_delivery_time ?st = None"
      then have "?th = None" by (rule fadd_None)
      with b(2) have "py_gt (r ''Delivery_Time'') None = Inr b" by simp
      then have "b = False" by (rule py_gt_None)
      with b(1) show "r ''Is_Late'' = Bool False" by simp
    qed
    have 3: "r ''Delivery_Time'' = Null \<longrightarrow> r ''Is_Late'' = Bool False"
      using b by (auto simp: py_gt_Null)
    from 1 2 3 show "(\<forall>x m s. r ''Delivery_Time'' = Num x \<longrightarrow>
          avg_delivery_time ?st = Some m \<longrightarrow> std_delivery_time ?st = Some s \<longrightarrow>
          r ''Is_Late'' = Bool (m + s < x)) \<and>
       (avg_delivery_time ?st = None \<or> std_delivery_time ?st = None \<longrightarrow>
          r ''Is_Late'' = Bool False) \<and>
       (r ''Delivery_Time'' = Null \<longrightarrow> r ''Is_Late'' = Bool False)" by blast
  qed
  have rows': "\<forall>r \<in> set (rows (df (state out))) \<union> set (rows (filtered out)).
       (\<forall>x m s. r ''Delivery_Time'' = Num x \<longrightarrow>
          avg_delivery_time (state out) = Some m \<longrightarrow> std_delivery_time (state out) = Some s \<longrightarrow>
          r ''Is_Late'' = Bool (m + s < x)) \<and>
       (avg_delivery_time (state out) = None \<or> std_delivery_time (state out) = None \<longrightarrow>
          r ''Is_Late'' = Bool False) \<and>
       (r ''Delivery_Time'' = Null \<longrightarrow> r ''Is_Late'' = Bool False)"
  proof
    fix r assume "r \<in> set (rows (df (state out))) \<union> set (rows (filtered out))"
    with sub have "r \<in> set (rows (df ?st))" by blast
    then show "(\<forall>x m s. r ''Delivery_Time'' = Num x \<longrightarrow>
          avg_delivery_time (state out) = Some m \<longrightarrow> std_delivery_time (state out) = Some s \<longrightarrow>
          r ''Is_Late'' = Bool (m + s < x)) \<and>
       (avg_delivery_time (state out) = None \<or> std_delivery_time (state out) = None \<longrightarrow>
          r ''Is_Late'' = Bool False) \<and>
       (r ''Delivery_Time'' = Null \<longrightarrow> r ''Is_Late'' = Bool False)" by (rule rowp)
  qed
  from old stats rows' show ?thesis
    by (elim conjE) (intro conjI, assumption+)
qed

theorem is_late_fixed_threshold_witness:
  "(\<exists>out. app spread_raw rain_sel = Inr out \<and>
     avg_delivery_time (state out) = Some 5 \<and> std_delivery_time (state out) = Some 4 \<and>
     column (df (state out)) ''Delivery_Time'' = [Num 6, Num 0, Null, Num 10, Num 2, Num 9, Num 3] \<and>
     (\<forall>r \<in> set (rows (df (state out))).
        (r ''Delivery_Time'' = Num 6 \<longrightarrow> r ''Is_Late'' = Bool False) \<and>
        (r ''Delivery_Time'' = Num 9 \<longrightarrow> r ''Is_Late'' = Bool False) \<and>
        (r ''Delivery_Time'' = Num 10 \<longrightarrow> r ''Is_Late'' = Bool True) \<and>
        (r ''Delivery_Time'' = Null \<longrightarrow> r ''Is_Late'' = Bool False))) \<and>
   (\<exists>out. app single_raw all_sel = Inr out \<and>
     avg_delivery_time (state out) = Some 1 \<and> std_delivery_time (state out) = None \<and>
     (\<forall>r \<in> set (rows (df (state out))). r ''Is_Late'' = Bool False))"
proof -
  have first: "\<exists>out. app spread_raw rain_sel = Inr out \<and>
     avg_delivery_time (state out) = Some 5 \<and> std_delivery_time (state out) = Some 4 \<and>
     column (df (state out)) ''Delivery_Time'' = [Num 6, Num 0, Null, Num 10, Num 2, Num 9, Num 3] \<and>
     (\<forall>r \<in> set (rows (df (state out))).
        (r ''Delivery_Time'' = Num 6 \<longrightarrow> r ''Is_Late'' = Bool False) \<and>
        (r ''Delivery_Time'' = Num 9 \<longrightarrow> r ''Is_Late'' = Bool False) \<and>
        (r ''Delivery_Time'' = Num 10 \<longrightarrow> r ''Is_Late'' = Bool True) \<and>
        (r ''Delivery_Time'' = Null \<longrightarrow> r ''Is_Late'' = Bool False))"
  proof -
    obtain out where out: "app spread_raw rain_sel = Inr out"
      using spread_app_ok by blast
    note t = is_late_fixed_threshold[OF out]
    let ?xs = "map num_key (filter (\<lambda>c. c \<noteq> Null) (column spread_raw ''Delivery_Time''))"
    have xs: "?xs = [6, 0, 10, 2, 9, 3]"
      by (simp add: spread_columns_eval)
    note st = t[THEN conjunct2, THEN conjunct2, THEN conjunct2, THEN conjunct2,
        THEN conjunct2, THEN conjunct2, THEN conjunct2, THEN conjunct1, rule_format, OF refl]
    have a: "avg_delivery_time (state out) = Some 5"
      using st unfolding xs by simp
    have s: "std_delivery_time (state out) = Some 4"
      using st unfolding xs by (simp add: sqrt_16)
    have c: "column (df (state out)) ''Delivery_Time'' = [Num 6, Num 0, Null, Num 10, Num 2, Num 9, Num 3]"
      using t[THEN conjunct2, THEN conjunct2, THEN conjunct1]
      by (simp add: spread_columns_eval)
    note rows = t[THEN conjunct2, THEN conjunct2, THEN conjunct2, THEN conjunct2,
        THEN conjunct2, THEN conjunct2, THEN conjunct2, THEN conjunct2]
    have "\<forall>r \<in> set (rows (df (state out))).
        (r ''Delivery_Time'' = Num 6 \<longrightarrow> r ''Is_Late'' = Bool False) \<and>
        (r ''Delivery_Time'' = Num 9 \<longrightarrow> r ''Is_Late'' = Bool False) \<and>
        (r ''Delivery_Time'' = Num 10 \<longrightarrow> r ''Is_Late'' = Bool True) \<and>
        (r ''Delivery_Time'' = Null \<longrightarrow> r ''Is_Late'' = Bool False)"
    proof
      fix r assume r: "r \<in> set (rows (df (state out)))"
      then have r': "r \<in> set (rows (df (state out))) \<union> set (rows (filtered out))" by simp
      note rr = rows[rule_format, OF r']
      have n: "\<And>x. r ''Delivery_Time'' = Num x \<Longrightarrow> r ''Is_Late'' = Bool (5 + 4 < x)"
        by (rule rr[THEN conjunct1, rule_format, OF _ a s])
      have z: "r ''Delivery_Time'' = Null \<longrightarrow> r ''Is_Late'' = Bool False"
        by (rule rr[THEN conjunct2, THEN conjunct2])
      show "(r ''Delivery_Time'' = Num 6 \<longrightarrow> r ''Is_Late'' = Bool False) \<and>
        (r ''Delivery_Time'' = Num 9 \<longrightarrow> r ''Is_Late'' = Bool False) \<and>
        (r ''Delivery_Time'' = Num 10 \<longrightarrow> r ''Is_Late'' = Bool True) \<and>
        (r ''Delivery_Time'' = Null \<longrightarrow> r ''Is_Late'' = Bool False)"
        using n[of 6] n[of 9] n[of 10] z by simp
    qed
    with out a s c show ?thesis by blast
  qed
  have second: "\<exists>out. app single_raw all_sel = Inr out \<and>
     avg_delivery_time (state out) = Some 1 \<and> std_delivery_time (state out) = None \<and>
     (\<forall>r \<in> set (rows (df (state out))). r ''Is_Late'' = Bool False)"
  proof -
    obtain out where out: "app single_raw all_sel = Inr out"
      using single_app_ok by blast
    note t = is_late_fixed_threshold[OF out]
    let ?xs = "map num_key (filter (\<lambda>c. c \<noteq> Null) (column single_raw ''Delivery_Time''))"
    have xs: "?xs = [1]"
      by (simp add: single_columns_eval)
    note st = t[THEN conjunct2, THEN conjunct2, THEN conjunct2, THEN conjunct2,
        THEN conjunct2, THEN conjunct2, THEN conjunct2, THEN conjunct1, rule_format, OF refl]
    have a: "avg_delivery_time (state out) = Some 1"
      using st unfolding xs by simp
    have s: "std_delivery_time (state out) = None"
      using st unfolding xs by simp
    note rows = t[THEN conjunct2, THEN conjunct2, THEN conjunct2, THEN conjunct2,
        THEN conjunct2, THEN conjunct2, THEN conjunct2, THEN conjunct2]
    have "\<forall>r \<in> set (rows (df (state out))). r ''Is_Late'' = Bool False"
    proof
      fix r assume "r \<in> set (rows (df (state out)))"
      then have r': "r \<in> set (rows (df (state out))) \<union> set (rows (filtered out))" by simp
      note rr = rows[rule_format, OF r']
      show "r ''Is_Late'' = Bool False"
        using rr[THEN conjunct2, THEN conjunct1] s by simp
    qed
    with out a s show ?thesis by blast
  qed
  from first second show ?thesis ..
qed


section \<open>The share of late deliveries\<close>

text \<open>
  Claim C3. \<open>late_percentage\<close> is 100 times the mean of \<open>Is_Late\<close> over the whole
  derived table, that is 100 times the number of late rows over the number of rows
  (NaN for a table without rows), and it is the same for every filter selection.
\<close>

theorem late_percentage_full_table:
  assumes "app raw sel = Inr out"
  shows "late_percentage (state out) =
      fmul (mean (present_values (column (df (state out)) ''Is_Late''))) 100 \<and>
    (rows raw \<noteq> [] \<longrightarrow> late_percentage (state out) =
      Some (100 * (real (length (filter (\<lambda>r. r ''Is_Late'' = Bool True) (rows (df (state out)))))
                    / real (length (rows (df (state out))))))) \<and>
    (rows raw = [] \<longrightarrow> late_percentage (state out) = None) \<and>
    length (rows (df (state out))) = length (rows raw) \<and>
    (\<forall>sel' out'. app raw sel' = Inr out' \<longrightarrow>
       late_percentage (state out') = late_percentage (state out))"
proof -
  let ?st = "state out"
  let ?il = "column (df ?st) ''Is_Late''"
  from assms have d: "derive raw = Inr ?st" by (rule app_InrE)
  have lp: "late_percentage ?st = fmul (mean (present_values ?il)) 100"
    by (rule derive_is_late(4)[OF d])
  have len: "length (rows (df ?st)) = length (rows raw)"
    by (rule derive_length[OF d])
  have bools: "\<And>c. c \<in> set ?il \<Longrightarrow> \<exists>b. c = Bool b"
    using derive_is_late(1)[OF d] by (auto simp: list_all2_conv_all_nth in_set_conv_nth)
  have l: "length (present_values ?il) = length (rows raw)"
    using bool_values(1)[OF bools] len by simp
  have s: "sum_list (present_values ?il)
      = real (length (filter (\<lambda>r. r ''Is_Late'' = Bool True) (rows (df ?st))))"
    using bool_values(2)[OF bools] by (simp add: count_column)
  have a: "rows raw \<noteq> [] \<Longrightarrow> late_percentage ?st =
      Some (100 * (real (length (filter (\<lambda>r. r ''Is_Late'' = Bool True) (rows (df ?st))))
                    / real (length (rows (df ?st)))))"
  proof -
    assume "rows raw \<noteq> []"
    with l have "present_values ?il \<noteq> []" by auto
    then show ?thesis
      unfolding lp using l s len by (simp add: mean_def fmul_def)
  qed
  have b: "rows raw = [] \<Longrightarrow> late_percentage ?st = None"
    unfolding lp using l by (simp add: mean_def fmul_def)
  have inv: "\<And>sel' out'. app raw sel' = Inr out' \<Longrightarrow> state out' = ?st"
    using app_state[OF assms] by blast
  show ?thesis
    using lp a b len inv by (intro conjI allI impI) auto
qed

theorem late_percentage_full_table_witness:
  "\<exists>out. app sample_raw rain_sel = Inr out \<and> late_percentage (state out) = Some 25"
proof -
  obtain out where out: "app sample_raw rain_sel = Inr out"
    using sample_app_ok by blast
  from out have d: "derive sample_raw = Inr (state out)" by (rule app_InrE)
  have n: "length (filter (\<lambda>r. r ''Is_Late'' = Bool True) (rows (df (state out)))) = 1"
    using count_column[of "Bool True" "df (state out)" "''Is_Late''"]
    by (simp add: sample_derived(3)[OF d])
  have ne: "rows sample_raw \<noteq> []" by (simp add: sample_raw_def)
  from late_percentage_full_table[OF out] ne
  have "late_percentage (state out) =
      Some (100 * (real (length (filter (\<lambda>r. r ''Is_Late'' = Bool True) (rows (df (state out)))))
                    / real (length (rows (df (state out))))))"
    by blast
  then have "late_percentage (state out) = Some 25"
    by (simp add: n sample_derived(4)[OF d])
  with out show ?thesis by blast
qed


section \<open>Filtering selects rows\<close>

text \<open>
  Claim C10. The filtered view consists of rows of the derived table, unchanged and in
  their original order, under the same columns; the derived table itself is the result
  of the cleaning whatever the selection is.
\<close>

theorem filter_is_row_selection:
  assumes "app raw sel = Inr out"
  shows "subseq (rows (filtered out)) (rows (df (state out))) \<and>
    columns (filtered out) = columns (df (state out)) \<and>
    derive raw = Inr (state out) \<and>
    filtered_df (df (state out)) sel = Inr (filtered out) \<and>
    (\<forall>sel' out'. app raw sel' = Inr out' \<longrightarrow> state out' = state out)"
proof -
  from assms have d: "derive raw = Inr (state out)" by (rule app_InrE)
  from assms have f: "filtered_df (df (state out)) sel = Inr (filtered out)" by (rule app_InrE)
  have "subseq (rows (filtered out)) (rows (df (state out)))"
    by (subst filtered_df_Inr[OF f]) simp
  moreover have "columns (filtered out) = columns (df (state out))"
    using filtered_rows_subset[OF f] by simp
  moreover have "\<And>sel' out'. app raw sel' = Inr out' \<Longrightarrow> state out' = state out"
    using app_state[OF assms] by blast
  ultimately show ?thesis using d f by blast
qed

theorem filter_is_row_selection_witness:
  "\<exists>out. app sample_raw rain_sel = Inr out \<and>
     subseq (rows (filtered out)) (rows (df (state out))) \<and>
     derive sample_raw = Inr (state out)"
proof -
  obtain out where out: "app sample_raw rain_sel = Inr out"
    using sample_app_ok by blast
  with filter_is_row_selection[OF out] show ?thesis by blast
qed

section \<open>The filter is a conjunction of equalities\<close>

text \<open>
  Claim C2. For string selections, the filter keeps exactly the rows that satisfy the
  specification's predicate: on each of the five columns "All" asks for nothing and any
  other selection asks for equality with the selected string, all five joined by "and".
  So "All" on every column returns the table itself, a selected value holds in that
  column of every kept row, and the kept rows together with the rows that fail the
  predicate count up to the whole table. On a table that has the five columns the
  filter never fails.
\<close>

theorem filter_is_conjunction:
  assumes "filtered_df d \<lparr>weather_sel = Str w, traffic_sel = Str t, vehicle_sel = Str v,
                          area_sel = Str a, cat_sel = Str c\<rparr> = Inr f"
  shows "rows f = filter (spec_keeps w t v a c) (rows d) \<and>
    columns f = columns d \<and>
    (w = ''All'' \<and> t = ''All'' \<and> v = ''All'' \<and> a = ''All'' \<and> c = ''All'' \<longrightarrow> f = d) \<and>
    (\<forall>r \<in> set (rows f).
       (w \<noteq> ''All'' \<longrightarrow> r ''Weather'' = Str w) \<and>
       (t \<noteq> ''All'' \<longrightarrow> r ''Traffic'' = Str t) \<and>
       (v \<noteq> ''All'' \<longrightarrow> r ''Vehicle'' = Str v) \<and>
       (a \<noteq> ''All'' \<longrightarrow> r ''Area'' = Str a) \<and>
       (c \<noteq> ''All'' \<longrightarrow> r ''Category'' = Str c)) \<and>
    length (rows f) + length (filter (\<lambda>r. \<not> spec_keeps w t v a c r) (rows d)) = length (rows d) \<and>
    (\<forall>d' sel. set cat_cols \<subseteq> set (columns d') \<longrightarrow> (\<exists>f'. filtered_df d' sel = Inr f'))"
proof -
  have k: "(\<lambda>r. (w = ''All'' \<or> r ''Weather'' = Str w) \<and>
      (t = ''All'' \<or> r ''Traffic'' = Str t) \<and>
      (v = ''All'' \<or> r ''Vehicle'' = Str v) \<and>
      (a = ''All'' \<or> r ''Area'' = Str a) \<and>
      (c = ''All'' \<or> r ''Category'' = Str c)) = spec_keeps w t v a c"
    by (simp add: spec_keeps_def fun_eq_iff)
  have f: "f = d\<lparr>rows := filter (spec_keeps w t v a c) (rows d)\<rparr>"
    using filtered_df_Inr[OF assms] by (simp add: k)
  have r: "rows f = filter (spec_keeps w t v a c) (rows d)" and cs: "columns f = columns d"
    by (simp_all add: f)
  have all: "w = ''All'' \<and> t = ''All'' \<and> v = ''All'' \<and> a = ''All'' \<and> c = ''All'' \<longrightarrow> f = d"
    by (simp add: f spec_keeps_def)
  have each: "\<forall>r \<in> set (rows f).
       (w \<noteq> ''All'' \<longrightarrow> r ''Weather'' = Str w) \<and>
       (t \<noteq> ''All'' \<longrightarrow> r ''Traffic'' = Str t) \<and>
       (v \<noteq> ''All'' \<longrightarrow> r ''Vehicle'' = Str v) \<and>
       (a \<noteq> ''All'' \<longrightarrow> r ''Area'' = Str a) \<and>
       (c \<noteq> ''All'' \<longrightarrow> r ''Category'' = Str c)"
    unfolding r by (auto simp: spec_keeps_def)
  have part: "length (rows f) + length (filter (\<lambda>r. \<not> spec_keeps w t v a c r) (rows d))
      = length (rows d)"
    unfolding r by (rule sum_length_filter_compl)
  have tot: "\<forall>d' sel. set cat_cols \<subseteq> set (columns d') \<longrightarrow> (\<exists>f'. filtered_df d' sel = Inr f')"
    using filtered_df_ok by blast
  from r cs all each part tot show ?thesis by blast
qed

theorem filter_is_conjunction_witness:
  "\<exists>f. filtered_df sample_raw \<lparr>weather_sel = Str ''Rain'', traffic_sel = Str ''All'',
           vehicle_sel = Str ''All'', area_sel = Str ''All'', cat_sel = Str ''All''\<rparr> = Inr f \<and>
     rows f = filter (spec_keeps ''Rain'' ''All'' ''All'' ''All'' ''All'') (rows sample_raw) \<and>
     length (rows f) = 2 \<and>
     (\<forall>r \<in> set (rows f). r ''Weather'' = Str ''Rain'')"
proof -
  have "set cat_cols \<subseteq> set (columns sample_raw)"
    by (simp add: cat_cols_def sample_raw_def sample_columns_def)
  from filtered_df_ok[OF this] obtain f where
    f: "filtered_df sample_raw \<lparr>weather_sel = Str ''Rain'', traffic_sel = Str ''All'',
           vehicle_sel = Str ''All'', area_sel = Str ''All'', cat_sel = Str ''All''\<rparr> = Inr f"
    by blast
  note t = filter_is_conjunction[OF f]
  have r: "rows f = filter (spec_keeps ''Rain'' ''All'' ''All'' ''All'' ''All'') (rows sample_raw)"
    using t by blast
  have l: "length (rows f) = 2"
    unfolding r by (simp add: spec_keeps_def sample_raw_def sample_row_def)
  have "\<forall>r \<in> set (rows f). r ''Weather'' = Str ''Rain''"
    using t by simp
  with f r l show ?thesis by blast
qed

section \<open>Missing categories\<close>

text \<open>
  Claim C7. After the cleaning, a categorical column (Weather, Traffic, Vehicle, Area,
  Category) that the loaded table has holds "Unknown" wherever it held a missing value
  and its other cells unchanged, so no row of the derived table, nor of any filtered
  view, has a missing value there; a categorical column that the loaded table does not
  have is skipped: the fill leaves the table as it is and the column stays absent.
\<close>

theorem categorical_nulls_filled:
  assumes "derive raw = Inr st" and "c \<in> set cat_cols"
  shows "(c \<in> set (columns raw) \<longrightarrow>
       c \<in> set (columns (df st)) \<and>
       column (df st) c = map (\<lambda>x. if x = Null then Str ''Unknown'' else x) (column raw c) \<and>
       (\<forall>r \<in> set (rows (df st)). r c \<noteq> Null) \<and>
       (\<forall>sel f. filtered_df (df st) sel = Inr f \<longrightarrow> (\<forall>r \<in> set (rows f). r c \<noteq> Null))) \<and>
    (c \<notin> set (columns raw) \<longrightarrow> c \<notin> set (columns (df st)) \<and> fill_cat c raw = raw)"
proof (intro conjI impI)
  assume p: "c \<in> set (columns raw)"
  show "c \<in> set (columns (df st))"
    using p derive_columns[OF assms(1)] by simp
  show col: "column (df st) c = map (\<lambda>x. if x = Null then Str ''Unknown'' else x) (column raw c)"
    using derive_cat_column[OF assms p] by (simp add: fillna_def)
  show nn: "\<forall>r \<in> set (rows (df st)). r c \<noteq> Null"
  proof
    fix r assume "r \<in> set (rows (df st))"
    then have "r c \<in> set (column (df st) c)" by (rule row_in_column)
    then show "r c \<noteq> Null" unfolding col by auto
  qed
  show "\<forall>sel f. filtered_df (df st) sel = Inr f \<longrightarrow> (\<forall>r \<in> set (rows f). r c \<noteq> Null)"
    using nn filtered_rows_subset by blast
next
  assume a: "c \<notin> set (columns raw)"
  show "c \<notin> set (columns (df st))"
    using a derive_columns[OF assms(1)] cat_not_derived[OF assms(2)] by simp
  show "fill_cat c raw = raw"
    using a by (simp add: fill_cat_def)
qed

theorem categorical_nulls_filled_witness:
  "\<exists>st. derive sample_no_area = Inr st \<and>
     column (df st) ''Vehicle'' = [Str ''Bike'', Str ''Unknown'', Str ''Bike'', Str ''Bike''] \<and>
     (\<forall>r \<in> set (rows (df st)). r ''Vehicle'' \<noteq> Null) \<and>
     ''Area'' \<notin> set (columns (df st))"
proof -
  obtain st where st: "derive sample_no_area = Inr st"
    using no_area_derive_ok by blast
  have v: "''Vehicle'' \<in> set cat_cols" and a: "''Area'' \<in> set cat_cols"
    by (simp_all add: cat_cols_def)
  have pv: "''Vehicle'' \<in> set (columns sample_no_area)"
    and pa: "''Area'' \<notin> set (columns sample_no_area)"
    by (simp_all add: no_area_columns_eval)
  from categorical_nulls_filled[OF st v] pv
  have "column (df st) ''Vehicle'' = [Str ''Bike'', Str ''Unknown'', Str ''Bike'', Str ''Bike'']"
    and "\<forall>r \<in> set (rows (df st)). r ''Vehicle'' \<noteq> Null"
    by (simp_all add: no_area_columns_eval sample_columns_eval)
  moreover from categorical_nulls_filled[OF st a] pa
  have "''Area'' \<notin> set (columns (df st))" by blast
  ultimately show ?thesis using st by blast
qed

section \<open>Missing ratings and ages\<close>

text \<open>
  Claim C8. The cleaning replaces a missing \<open>Agent_Rating\<close> by the mean of the ratings
  present in the loaded table, and a missing \<open>Agent_Age\<close> by the median of the ages
  present in the loaded table; each statistic is taken from its own column as loaded.

  Spelled out: with \<open>xs\<close> the values present in the loaded column, the mean is the sum
  of \<open>xs\<close> over their number; the median is the middle element of \<open>xs\<close> sorted when
  their number is odd, and the half sum of the two middle elements when it is even.
  When no value is present the column stays as it was loaded.
\<close>

theorem numeric_nulls_imputed:
  assumes "derive raw = Inr st"
  shows "(''Agent_Rating'' \<in> set (columns raw) \<longrightarrow>
       column (df st) ''Agent_Rating'' =
         map (\<lambda>x. if x = Null
                  then cell_of (mean (present_values (column raw ''Agent_Rating''))) else x)
           (column raw ''Agent_Rating'')) \<and>
    ''Agent_Age'' \<in> set (columns raw) \<and>
    column (df st) ''Agent_Age'' =
      map (\<lambda>x. if x = Null
               then cell_of (median (present_values (column raw ''Agent_Age''))) else x)
        (column raw ''Agent_Age'') \<and>
    (\<forall>xs. xs = map num_key (filter (\<lambda>c. c \<noteq> Null) (column raw ''Agent_Rating'')) \<longrightarrow>
       ''Agent_Rating'' \<in> set (columns raw) \<longrightarrow>
       (xs \<noteq> [] \<longrightarrow> column (df st) ''Agent_Rating'' =
          map (\<lambda>x. if x = Null then Num (sum_list xs / real (length xs)) else x)
            (column raw ''Agent_Rating'')) \<and>
       (xs = [] \<longrightarrow> column (df st) ''Agent_Rating'' = column raw ''Agent_Rating'')) \<and>
    (\<forall>xs. xs = map num_key (filter (\<lambda>c. c \<noteq> Null) (column raw ''Agent_Age'')) \<longrightarrow>
       (odd (length xs) \<longrightarrow> column (df st) ''Agent_Age'' =
          map (\<lambda>x. if x = Null then Num (sort xs ! (length xs div 2)) else x)
            (column raw ''Agent_Age'')) \<and>
       (even (length xs) \<and> xs \<noteq> [] \<longrightarrow> column (df st) ''Agent_Age'' =
          map (\<lambda>x. if x = Null
                   then Num ((sort xs ! (length xs div 2 - 1) + sort xs ! (length xs div 2)) / 2)
                   else x)
            (column raw ''Agent_Age'')) \<and>
       (xs = [] \<longrightarrow> column (df st) ''Agent_Age'' = column raw ''Agent_Age''))"
proof -
  from assms have age: "''Agent_Age'' \<in> set (columns raw)" by (rule derive_shape)
  have r: "''Agent_Rating'' \<in> set (columns raw) \<longrightarrow>
       column (df st) ''Agent_Rating'' =
         map (\<lambda>x. if x = Null
                  then cell_of (mean (present_values (column raw ''Agent_Rating''))) else x)
           (column raw ''Agent_Rating'')"
    using derive_column[OF assms, of "''Agent_Rating''"] by (simp add: fillna_def)
  have a: "column (df st) ''Agent_Age'' =
      map (\<lambda>x. if x = Null
               then cell_of (median (present_values (column raw ''Agent_Age''))) else x)
        (column raw ''Agent_Age'')"
    using derive_column[OF assms, of "''Agent_Age''"] age by (simp add: fillna_def)
  have r': "\<forall>xs. xs = map num_key (filter (\<lambda>c. c \<noteq> Null) (column raw ''Agent_Rating'')) \<longrightarrow>
       ''Agent_Rating'' \<in> set (columns raw) \<longrightarrow>
       (xs \<noteq> [] \<longrightarrow> column (df st) ''Agent_Rating'' =
          map (\<lambda>x. if x = Null then Num (sum_list xs / real (length xs)) else x)
            (column raw ''Agent_Rating'')) \<and>
       (xs = [] \<longrightarrow> column (df st) ''Agent_Rating'' = column raw ''Agent_Rating'')"
  proof (intro allI impI conjI)
    fix xs assume xs: "xs = map num_key (filter (\<lambda>c. c \<noteq> Null) (column raw ''Agent_Rating''))"
      and p: "''Agent_Rating'' \<in> set (columns raw)"
    from xs have pv: "present_values (column raw ''Agent_Rating'') = xs"
      by (simp add: present_values_def)
    { assume "xs \<noteq> []"
      then have fv: "cell_of (mean xs) = Num (sum_list xs / real (length xs))"
        by (simp add: mean_def cell_of_def)
      from r p show "column (df st) ''Agent_Rating'' =
          map (\<lambda>x. if x = Null then Num (sum_list xs / real (length xs)) else x)
            (column raw ''Agent_Rating'')"
        unfolding pv fv by blast }
    { assume "xs = []"
      then have fv: "cell_of (mean xs) = Null"
        by (simp add: mean_def cell_of_def)
      from r p show "column (df st) ''Agent_Rating'' = column raw ''Agent_Rating''"
        unfolding pv fv fill_null_null by blast }
  qed
  have a': "\<forall>xs. xs = map num_key (filter (\<lambda>c. c \<noteq> Null) (column raw ''Agent_Age'')) \<longrightarrow>
       (odd (length xs) \<longrightarrow> column (df st) ''Agent_Age'' =
          map (\<lambda>x. if x = Null then Num (sort xs ! (length xs div 2)) else x)
            (column raw ''Agent_Age'')) \<and>
       (even (length xs) \<and> xs \<noteq> [] \<longrightarrow> column (df st) ''Agent_Age'' =
          map (\<lambda>x. if x = Null
                   then Num ((sort xs ! (length xs div 2 - 1) + sort xs ! (length xs div 2)) / 2)
                   else x)
            (column raw ''Agent_Age'')) \<and>
       (xs = [] \<longrightarrow> column (df st) ''Agent_Age'' = column raw ''Agent_Age'')"
  proof (intro allI impI conjI)
    fix xs assume xs: "xs = map num_key (filter (\<lambda>c. c \<noteq> Null) (column raw ''Agent_Age''))"
    from xs have pv: "present_values (column raw ''Agent_Age'') = xs"
      by (simp add: present_values_def)
    { assume o: "odd (length xs)"
      then have "xs \<noteq> []" by auto
      then have "sort xs \<noteq> []" by (rule sort_not_Nil)
      with o have fv: "cell_of (median xs) = Num (sort xs ! (length xs div 2))"
        by (simp add: median_def cell_of_def Let_def)
      from a show "column (df st) ''Agent_Age'' =
          map (\<lambda>x. if x = Null then Num (sort xs ! (length xs div 2)) else x)
            (column raw ''Agent_Age'')"
        unfolding pv fv . }
    { assume e: "even (length xs) \<and> xs \<noteq> []"
      then have "sort xs \<noteq> []" by (simp add: sort_not_Nil)
      with e have fv: "cell_of (median xs) =
          Num ((sort xs ! (length xs div 2 - 1) + sort xs ! (length xs div 2)) / 2)"
        by (simp add: median_def cell_of_def Let_def)
      from a show "column (df st) ''Agent_Age'' =
          map (\<lambda>x. if x = Null
                   then Num ((sort xs ! (length xs div 2 - 1) + sort xs ! (length xs div 2)) / 2)
                   else x)
            (column raw ''Agent_Age'')"
        unfolding pv fv . }
    { assume "xs = []"
      then have fv: "cell_of (median xs) = Null"
        by (simp add: median_def cell_of_def)
      from a show "column (df st) ''Agent_Age'' = column raw ''Agent_Age''"
        unfolding pv fv fill_null_null . }
  qed
  from r age a r' a' show ?thesis
    by (intro conjI)
qed

theorem numeric_nulls_imputed_witness:
  "(\<exists>st. derive even_ages_raw = Inr st \<and>
     column (df st) ''Agent_Rating'' = [Num 5, Num (13 / 4), Num 1, Num 3, Num 4] \<and>
     column (df st) ''Agent_Age'' = [Num 41, Num 24, Num (71 / 2), Num 30, Num 50]) \<and>
   (\<exists>st. derive odd_ages_raw = Inr st \<and>
     column (df st) ''Agent_Rating'' = [Num 5, Num 3, Num 1, Num 3, Num 4, Num 2] \<and>
     column (df st) ''Agent_Age'' = [Num 41, Num 24, Num 30, Num 30, Num 50, Num 25])"
proof -
  have c: "''Agent_Rating'' \<in> set sample_columns"
    by (simp add: sample_columns_def)
  have first: "\<exists>st. derive even_ages_raw = Inr st \<and>
     column (df st) ''Agent_Rating'' = [Num 5, Num (13 / 4), Num 1, Num 3, Num 4] \<and>
     column (df st) ''Agent_Age'' = [Num 41, Num 24, Num (71 / 2), Num 30, Num 50]"
  proof -
    obtain st where st: "derive even_ages_raw = Inr st"
      using even_ages_derive_ok by blast
    note t = numeric_nulls_imputed[OF st]
    let ?rs = "map num_key (filter (\<lambda>c. c \<noteq> Null) (column even_ages_raw ''Agent_Rating''))"
    let ?as = "map num_key (filter (\<lambda>c. c \<noteq> Null) (column even_ages_raw ''Agent_Age''))"
    have rs: "?rs = [5, 1, 3, 4]" and as: "?as = [41, 24, 30, 50]"
      by (simp_all add: even_ages_columns_eval)
    have c': "''Agent_Rating'' \<in> set (columns even_ages_raw)"
      using c by (simp add: even_ages_columns_eval(1))
    note tr = t[THEN conjunct2, THEN conjunct2, THEN conjunct2, THEN conjunct1,
        rule_format, OF refl c', THEN conjunct1]
    note ta = t[THEN conjunct2, THEN conjunct2, THEN conjunct2, THEN conjunct2,
        rule_format, OF refl]
    from tr have r: "column (df st) ''Agent_Rating'' = [Num 5, Num (13 / 4), Num 1, Num 3, Num 4]"
      unfolding rs by (simp add: even_ages_columns_eval)
    from ta[THEN conjunct2, THEN conjunct1] have a: "column (df st) ''Agent_Age'' = [Num 41, Num 24, Num (71 / 2), Num 30, Num 50]"
      unfolding as by (simp add: even_ages_columns_eval)
    from st r a show ?thesis by blast
  qed
  have second: "\<exists>st. derive odd_ages_raw = Inr st \<and>
     column (df st) ''Agent_Rating'' = [Num 5, Num 3, Num 1, Num 3, Num 4, Num 2] \<and>
     column (df st) ''Agent_Age'' = [Num 41, Num 24, Num 30, Num 30, Num 50, Num 25]"
  proof -
    obtain st where st: "derive odd_ages_raw = Inr st"
      using odd_ages_derive_ok by blast
    note t = numeric_nulls_imputed[OF st]
    let ?rs = "map num_key (filter (\<lambda>c. c \<noteq> Null) (column odd_ages_raw ''Agent_Rating''))"
    let ?as = "map num_key (filter (\<lambda>c. c \<noteq> Null) (column odd_ages_raw ''Agent_Age''))"
    have rs: "?rs = [5, 1, 3, 4, 2]" and as: "?as = [41, 24, 30, 50, 25]"
      by (simp_all add: odd_ages_columns_eval)
    have c': "''Agent_Rating'' \<in> set (columns odd_ages_raw)"
      using c by (simp add: odd_ages_columns_eval(1))
    note tr = t[THEN conjunct2, THEN conjunct2, THEN conjunct2, THEN conjunct1,
        rule_format, OF refl c', THEN conjunct1]
    note ta = t[THEN conjunct2, THEN conjunct2, THEN conjunct2, THEN conjunct2,
        rule_format, OF refl]
    from tr have r: "column (df st) ''Agent_Rating'' = [Num 5, Num 3, Num 1, Num 3, Num 4, Num 2]"
      unfolding rs by (simp add: odd_ages_columns_eval)
    from ta[THEN conjunct1] have a: "column (df st) ''Agent_Age'' = [Num 41, Num 24, Num 30, Num 30, Num 50, Num 25]"
      unfolding as by (simp add: odd_ages_columns_eval)
    from st r a show ?thesis by blast
  qed
  from first second show ?thesis ..
qed

section \<open>An age that is not a number\<close>

text \<open>
  Claim C5 says that an age that is not a number makes the bucketing fail with
  \<^verbatim>\<open>InvalidAgeError\<close> and that the row is then left out while the run goes on. The
  script has no such error and no handler: on the table \<open>bad_age_raw\<close>, whose fifth
  age is the string "abc", \<^verbatim>\<open>age_group\<close> raises \<^verbatim>\<open>TypeError\<close>, the cleaning
  raises it already at the median, and the whole run ends with it.
\<close>

theorem invalid_age_counterexample:
  "mapE age_group [Num 30, Str ''abc''] = Inl TypeError \<and>
   derive bad_age_raw = Inl TypeError \<and>
   app bad_age_raw all_sel = Inl TypeError"
proof -
  have a: "mapE age_group [Num 30, Str ''abc''] = Inl TypeError"
    by (simp add: age_group_def py_lt_def py_le_def)
  have d: "derive bad_age_raw = Inl TypeError"
    by (rule derive_str_age) (simp_all add: bad_age_columns_eval)
  have "app bad_age_raw all_sel = Inl TypeError"
    by (simp add: app_def d)
  with a d show ?thesis by blast
qed

text \<open>
  Claim C5, amended. On ages that are numbers or missing, the bucketing never fails and
  gives a bucket for every row. An age that is a string makes \<^verbatim>\<open>age_group\<close> raise
  \<^verbatim>\<open>TypeError\<close>; with such an age in the loaded table the cleaning, and with it the
  whole run for every selection, ends with \<^verbatim>\<open>TypeError\<close>. So whenever the cleaning
  succeeds no age was a string and every row of the derived table has its bucket.
\<close>

theorem age_bucketing_errors:
  "(\<not> list_ex is_str ages \<longrightarrow>
      (\<exists>gs. mapE age_group ages = Inr gs \<and> length gs = length ages)) \<and>
   (list_ex is_str ages \<longrightarrow> mapE age_group ages = Inl TypeError) \<and>
   (''Agent_Age'' \<in> set (columns raw) \<and> list_ex is_str (column raw ''Agent_Age'') \<longrightarrow>
      derive raw = Inl TypeError \<and> (\<forall>sel. app raw sel = Inl TypeError)) \<and>
   (\<forall>st. derive raw = Inr st \<longrightarrow>
      \<not> list_ex is_str (column raw ''Agent_Age'') \<and>
      length (column (df st) ''Agent_Age_Group'') = length (rows raw) \<and>
      list_all2 (\<lambda>a g. age_group a = Inr g)
        (column (df st) ''Agent_Age'') (column (df st) ''Agent_Age_Group''))"
proof (intro conjI impI allI)
  assume "\<not> list_ex is_str ages"
  then show "\<exists>gs. mapE age_group ages = Inr gs \<and> length gs = length ages"
    by (rule mapE_age_group_ok)
next
  assume "list_ex is_str ages"
  then show "mapE age_group ages = Inl TypeError"
    by (rule mapE_age_group_str)
next
  assume a: "''Agent_Age'' \<in> set (columns raw) \<and> list_ex is_str (column raw ''Agent_Age'')"
  then show d: "derive raw = Inl TypeError"
    by (simp add: derive_str_age)
  fix sel
  show "app raw sel = Inl TypeError"
    using a by (simp add: app_def derive_str_age)
next
  fix st assume st: "derive raw = Inr st"
  then have "\<exists>st. derive raw = Inr st" by blast
  then show "\<not> list_ex is_str (column raw ''Agent_Age'')"
    unfolding derive_ok_iff by blast
  show "length (column (df st) ''Agent_Age_Group'') = length (rows raw)"
    using derive_length[OF st] by simp
  show "list_all2 (\<lambda>a g. age_group a = Inr g)
        (column (df st) ''Agent_Age'') (column (df st) ''Agent_Age_Group'')"
    by (rule derive_age_group[OF st])
qed

theorem age_bucketing_errors_witness:
  "(\<exists>gs. mapE age_group [Num 24, Null] = Inr gs \<and> length gs = 2) \<and>
   mapE age_group [Num 30, Str ''abc''] = Inl TypeError \<and>
   derive bad_age_raw = Inl TypeError \<and>
   (\<exists>st. derive sample_raw = Inr st \<and> length (column (df st) ''Agent_Age_Group'') = 4)"
proof -
  have "\<exists>gs. mapE age_group [Num 24, Null] = Inr gs \<and> length gs = 2"
  proof -
    have "\<not> list_ex is_str [Num 24, Null]" by simp
    with age_bucketing_errors[of "[Num 24, Null]" sample_raw]
    obtain gs where gs: "mapE age_group [Num 24, Null] = Inr gs"
      "length gs = length [Num 24, Null]" by blast
    from gs(2) have "length gs = 2" by simp
    with gs(1) show ?thesis by blast
  qed
  moreover have "mapE age_group [Num 30, Str ''abc''] = Inl TypeError"
  proof -
    have "list_ex is_str [Num 30, Str ''abc'']" by simp
    with age_bucketing_errors[of "[Num 30, Str ''abc'']" bad_age_raw]
    show ?thesis by blast
  qed
  moreover have "derive bad_age_raw = Inl TypeError"
  proof -
    have "''Agent_Age'' \<in> set (columns bad_age_raw) \<and>
        list_ex is_str (column bad_age_raw ''Agent_Age'')"
      by (simp add: bad_age_columns_eval)
    with age_bucketing_errors[of "[]" bad_age_raw]
    show ?thesis by blast
  qed
  moreover have "\<exists>st. derive sample_raw = Inr st \<and> length (column (df st) ''Agent_Age_Group'') = 4"
  proof -
    obtain st where st: "derive sample_raw = Inr st" using sample_derive_ok by blast
    with age_bucketing_errors[of "[]" sample_raw]
    have "length (column (df st) ''Agent_Age_Group'') = length (rows sample_raw)" by blast
    then have "length (column (df st) ''Agent_Age_Group'') = 4" by (simp add: sample_raw_def)
    with st show ?thesis by blast
  qed
  ultimately show ?thesis by blast
qed

section \<open>A missing delivery time\<close>

text \<open>
  Claim C6 says that a missing \<open>Delivery_Time\<close> makes the aggregate statistics and the
  row's \<open>Is_Late\<close> undefined. On the table \<open>null_time_raw\<close>, whose fifth delivery
  time is missing, the time stays missing, yet the mean and the standard deviation are
  both 2, the fifth row's \<open>Is_Late\<close> is the boolean \<open>False\<close>, and the share of late
  deliveries is 20.
\<close>

theorem null_delivery_time_counterexample:
  "\<not> isl (derive null_time_raw) \<and>
   column null_time_raw ''Delivery_Time'' ! 4 = Null \<and>
   column (df (projr (derive null_time_raw))) ''Delivery_Time'' ! 4 = Null \<and>
   column (df (projr (derive null_time_raw))) ''Is_Late'' ! 4 = Bool False \<and>
   avg_delivery_time (projr (derive null_time_raw)) = Some 2 \<and>
   std_delivery_time (projr (derive null_time_raw)) = Some 2 \<and>
   late_percentage (projr (derive null_time_raw)) = Some 20"
proof -
  obtain st where st: "derive null_time_raw = Inr st"
    using null_time_derive_ok by blast
  have lp: "late_percentage st = Some 20"
    using derive_is_late(4)[OF st]
    by (simp add: null_time_derived(3)[OF st] present_values_def mean_def fmul_def)
  show ?thesis
    using null_time_derived[OF st] derive_delivery_time[OF st] lp
    by (simp add: st null_time_columns_eval)
qed

text \<open>
  Claim C6, amended. \<open>Delivery_Time\<close> is never imputed: the column of the derived
  table is the loaded one. The mean and the sample standard deviation are taken over
  the delivery times that are present, and a row whose \<open>Delivery_Time\<close> is missing has
  \<open>Is_Late\<close> false.
\<close>

theorem null_delivery_time_skipped:
  assumes "derive raw = Inr st"
  shows "column (df st) ''Delivery_Time'' = column raw ''Delivery_Time'' \<and>
    avg_delivery_time st =
      mean (map num_key (filter (\<lambda>c. c \<noteq> Null) (column raw ''Delivery_Time''))) \<and>
    std_delivery_time st =
      std (map num_key (filter (\<lambda>c. c \<noteq> Null) (column raw ''Delivery_Time''))) \<and>
    (\<forall>r \<in> set (rows (df st)). r ''Delivery_Time'' = Null \<longrightarrow> r ''Is_Late'' = Bool False)"
proof -
  have "\<And>r. r \<in> set (rows (df st)) \<Longrightarrow> r ''Delivery_Time'' = Null \<Longrightarrow> r ''Is_Late'' = Bool False"
  proof -
    fix r assume "r \<in> set (rows (df st))" and n: "r ''Delivery_Time'' = Null"
    with rows_all2[OF derive_is_late(1)[OF assms]]
    obtain b where "r ''Is_Late'' = Bool b"
      "py_gt (r ''Delivery_Time'') (fadd (avg_delivery_time st) (std_delivery_time st)) = Inr b"
      by blast
    with n show "r ''Is_Late'' = Bool False" by (simp add: py_gt_Null)
  qed
  then show ?thesis
    using derive_is_late(2,3)[OF assms] derive_delivery_time[OF assms]
    by (simp add: present_values_def)
qed

theorem null_delivery_time_skipped_witness:
  "\<exists>st. derive null_time_raw = Inr st \<and> avg_delivery_time st = Some 2 \<and>
     std_delivery_time st = Some 2 \<and>
     column (df st) ''Delivery_Time'' = [Num 1, Num 1, Num 1, Num 5, Null] \<and>
     (\<forall>r \<in> set (rows (df st)). r ''Delivery_Time'' = Null \<longrightarrow> r ''Is_Late'' = Bool False)"
proof -
  obtain st where st: "derive null_time_raw = Inr st"
    using null_time_derive_ok by blast
  note t = null_delivery_time_skipped[OF st]
  have "avg_delivery_time st = Some 2"
    using t by (simp add: null_time_columns_eval mean_def)
  moreover have "std_delivery_time st = Some 2"
    using t by (simp add: null_time_columns_eval std_def)
  moreover have "column (df st) ''Delivery_Time'' = [Num 1, Num 1, Num 1, Num 5, Null]"
    using t by (simp add: null_time_columns_eval)
  moreover have "\<forall>r \<in> set (rows (df st)). r ''Delivery_Time'' = Null \<longrightarrow> r ''Is_Late'' = Bool False"
    using t by blast
  ultimately show ?thesis using st by blast
qed

section \<open>An empty filter result\<close>

text \<open>
  Claim C9. When no row passes the filter, each of the four group-by aggregates (by
  Weather and Traffic, by Vehicle, by Area, and the late rate by Weather) has no group
  at all, and the count of filtered records is 0. The run does not fail for it: once it
  succeeds for one selection it succeeds for every selection.
\<close>

theorem empty_filter_groups:
  assumes "app raw sel = Inr out" and "rows (filtered out) = []"
  shows "fig1_data out = Map.empty \<and> fig2_data out = Map.empty \<and>
    fig4_data out = Map.empty \<and> late_df out = Map.empty \<and>
    records_filtered out = 0 \<and>
    (\<forall>sel'. \<exists>out'. app raw sel' = Inr out')"
proof -
  from assms(1) obtain opts g1 g2 g4 g6 where h:
    "derive raw = Inr (state out)"
    "sidebar (df (state out)) = Inr opts"
    "groupby_mean (filtered out) [''Weather'', ''Traffic''] ''Delivery_Time'' = Inr g1"
    "groupby_mean (filtered out) [''Vehicle''] ''Delivery_Time'' = Inr g2"
    "groupby_mean (filtered out) [''Area''] ''Delivery_Time'' = Inr g4"
    "groupby_mean (filtered out) [''Weather''] ''Is_Late'' = Inr g6"
    "fig1_data out = g1" "fig2_data out = g2" "fig4_data out = g4"
    "late_df out = (\<lambda>k. map_option (\<lambda>m. (m, fmul m 100)) (g6 k))"
    "records_filtered out = length (rows (filtered out))"
    by (rule app_InrE)
  have e: "\<And>keys val g. groupby_mean (filtered out) keys val = Inr g \<Longrightarrow> g = Map.empty"
  proof -
    fix keys val g assume g: "groupby_mean (filtered out) keys val = Inr g"
    from groupby_mean_columns[OF g]
    have "groupby_mean (filtered out) keys val = Inr Map.empty"
      by (intro groupby_mean_empty assms(2)) simp_all
    with g show "g = Map.empty" by simp
  qed
  have "g1 = Map.empty" "g2 = Map.empty" "g4 = Map.empty" "g6 = Map.empty"
    using e[OF h(3)] e[OF h(4)] e[OF h(5)] e[OF h(6)] by simp_all
  moreover have "\<forall>sel'. \<exists>out'. app raw sel' = Inr out'"
    using app_ok[OF h(1,2)] by blast
  ultimately show ?thesis
    using h(7-11) assms(2) by simp
qed

theorem empty_filter_groups_witness:
  "\<exists>out. app sample_raw snow_sel = Inr out \<and> rows (filtered out) = [] \<and>
     fig2_data out = Map.empty \<and> late_df out = Map.empty \<and> records_filtered out = 0"
proof -
  obtain out where out: "app sample_raw snow_sel = Inr out"
    using sample_app_ok by blast
  from out have d: "derive sample_raw = Inr (state out)"
    by (rule app_InrE)
  from out have f: "filtered_df (df (state out)) snow_sel = Inr (filtered out)"
    by (rule app_InrE)
  have w: "''Weather'' \<in> set cat_cols" "''Weather'' \<in> set (columns sample_raw)"
    by (simp_all add: cat_cols_def sample_raw_def sample_columns_def)
  have col: "column (df (state out)) ''Weather'' = [Str ''Sunny'', Str ''Sunny'', Str ''Rain'', Str ''Rain'']"
    using derive_cat_column[OF d w] by (simp add: sample_columns_eval fillna_def)
  have "\<And>r. r \<in> set (rows (df (state out))) \<Longrightarrow> r ''Weather'' \<noteq> Str ''Snow''"
  proof -
    fix r assume "r \<in> set (rows (df (state out)))"
    then have "r ''Weather'' \<in> set (column (df (state out)) ''Weather'')" by (rule row_in_column)
    then show "r ''Weather'' \<noteq> Str ''Snow''" unfolding col by auto
  qed
  then have e: "rows (filtered out) = []"
    by (subst filtered_df_Inr[OF f]) (simp add: snow_sel_def all_sel_def filter_empty_conv)
  from empty_filter_groups[OF out e] out e show ?thesis by blast
qed

end
